theory Spec2Isabelle
  imports Main "HOL-Library.Multiset"
begin

section \<open>JavaScript values and strings\<close>

text \<open>
  The values the authentication code reads, a header, a cookie, the token of
  \<open>/auth\<close> and the environment variable, are a string, \<open>null\<close> or
  \<open>undefined\<close> (a missing property reads as \<open>undefined\<close>). Strict equality
  \<open>===\<close> on these values is equality of \<open>jsval\<close>. A string is a list of
  characters; header text is the bytes of the request line by line, one character per
  byte. The fields of a JSON body and the \<open>status\<close> parameter of a query are
  values of the type \<open>json\<close> below.
\<close>

datatype jsval = Undefined | Null | Str string

text \<open>\<open>s.split(sep)\<close> for a one-character separator: every occurrence of the
  separator cuts, so \<open>n\<close> separators give \<open>n + 1\<close> pieces, empty ones
  included.\<close>

fun js_split :: "char \<Rightarrow> string \<Rightarrow> string list" where
  "js_split sep [] = [[]]"
| "js_split sep (c # cs) =
     (if c = sep then [] # js_split sep cs
      else (case js_split sep cs of
              [] \<Rightarrow> [[c]]
            | p # ps \<Rightarrow> (c # p) # ps))"

text \<open>The white space \<open>trim()\<close> removes, among the characters a header can hold:
  tab, line feed, vertical tab, form feed, carriage return, space and no-break space.\<close>

definition js_whitespace :: "char \<Rightarrow> bool" where
  "js_whitespace c =
     (c = CHR 0x09 \<or> c = CHR 0x0A \<or> c = CHR 0x0B \<or> c = CHR 0x0C \<or> c = CHR 0x0D
      \<or> c = CHR 0x20 \<or> c = CHR 0xA0)"

definition js_trim :: "string \<Rightarrow> string" where
  "js_trim s = rev (dropWhile js_whitespace (rev (dropWhile js_whitespace s)))"

text \<open>A template literal \<open>`${v}`\<close> writes a value as text.\<close>

fun to_string :: "jsval \<Rightarrow> string" where
  "to_string Undefined = ''undefined''"
| "to_string Null = ''null''"
| "to_string (Str s) = s"

section \<open>Requests and the cookie parser\<close>

text \<open>
  A request as the authentication code reads it: \<open>req.headers.authorization\<close>,
  \<open>req.headers.cookie\<close> (\<open>None\<close> when the header is missing) and the object
  \<open>req.cookies\<close>, read by property name; a name that was never assigned reads as
  \<open>undefined\<close>.
\<close>

record request =
  headers_authorization :: "string option"
  headers_cookie :: "string option"
  cookies :: "string \<Rightarrow> jsval"

text \<open>\<open>obj[name] = value\<close> on a plain object. The name \<open>__proto__\<close> is the
  accessor of the prototype, whose setter ignores a string and \<open>undefined\<close>: the
  assignment then stores nothing.\<close>

definition assign :: "(string \<Rightarrow> jsval) \<Rightarrow> string \<Rightarrow> jsval \<Rightarrow> (string \<Rightarrow> jsval)" where
  "assign obj name v = (if name = ''__proto__'' then obj else obj(name := v))"

text \<open>The body of the \<open>forEach\<close>: \<open>const [name, value] = cookie.trim().split('=')\<close>
  takes the first two pieces of the split and drops the others; with one piece only,
  \<open>value\<close> is \<open>undefined\<close>.\<close>

definition parse_segment :: "string \<Rightarrow> (string \<Rightarrow> jsval) \<Rightarrow> (string \<Rightarrow> jsval)" where
  "parse_segment cookie obj =
     (case js_split CHR ''='' (js_trim cookie) of
        [] \<Rightarrow> obj
      | [name] \<Rightarrow> assign obj name Undefined
      | name # v # _ \<Rightarrow> assign obj name (Str v))"

definition cookie_parser :: "request \<Rightarrow> request" where
  "cookie_parser req =
     req\<lparr>cookies :=
       (case headers_cookie req of
          None \<Rightarrow> (\<lambda>_. Undefined)
        | Some cookieHeader \<Rightarrow>
            if cookieHeader = [] then (\<lambda>_. Undefined)
            else fold parse_segment (js_split CHR '';'' cookieHeader) (\<lambda>_. Undefined))\<rparr>"

text \<open>The names of the cookies a \<open>Cookie\<close> header carries, as the parser reads
  them: the first piece of every trimmed segment.\<close>

definition cookie_names :: "string \<Rightarrow> string list" where
  "cookie_names cookieHeader =
     map (\<lambda>seg. case js_split CHR ''='' (js_trim seg) of [] \<Rightarrow> [] | name # _ \<Rightarrow> name)
       (js_split CHR '';'' cookieHeader)"

section \<open>The authentication gate\<close>

text \<open>The middleware either calls \<open>next()\<close> or sends a reply: a status code and a
  JSON object, written as its list of members.\<close>

datatype auth_result = Next | Reply nat "(string \<times> string) list"

definition requireAuth :: "jsval \<Rightarrow> request \<Rightarrow> auth_result" where
  "requireAuth APP_TOKEN req =
     (if (case headers_authorization req of
            None \<Rightarrow> False
          | Some authHeader \<Rightarrow>
              authHeader \<noteq> [] \<and> take 7 authHeader = ''Bearer ''
              \<and> Str (drop 7 authHeader) = APP_TOKEN)
      then Next
      else if cookies req ''app_token'' = APP_TOKEN then Next
      else Reply 401 [(''error'', ''Unauthorized'')])"

text \<open>A route \<open>app.METHOD(path, requireAuth, handler)\<close> behind the cookie parser:
  the handler runs on the request when the gate calls \<open>next()\<close>, and the gate's reply
  is the response otherwise (\<open>Inl\<close>, the handler is not applied).\<close>

definition api_route ::
  "jsval \<Rightarrow> (request \<Rightarrow> 'a) \<Rightarrow> request \<Rightarrow> (nat \<times> (string \<times> string) list) + 'a" where
  "api_route APP_TOKEN handler raw =
     (let req = cookie_parser raw in
      case requireAuth APP_TOKEN req of
        Next \<Rightarrow> Inr (handler req)
      | Reply code body \<Rightarrow> Inl (code, body))"

text \<open>\<open>GET /auth?token=X\<close>: on a match the reply sets the cookie and redirects to
  \<open>/\<close>; otherwise it is 401 with a plain text.\<close>

datatype auth_reply = Redirect string string | Plain nat string

definition auth_endpoint :: "jsval \<Rightarrow> jsval \<Rightarrow> auth_reply" where
  "auth_endpoint APP_TOKEN token =
     (if token = APP_TOKEN
      then Redirect (''app_token='' @ to_string token
                       @ ''; Path=/; HttpOnly; SameSite=Strict; Max-Age=31536000'') ''/''
      else Plain 401 ''Invalid token'')"

text \<open>The pair \<open>name=value\<close> a browser keeps from a \<open>Set-Cookie\<close> header and sends
  back in \<open>Cookie\<close>: the text before the first \<open>;\<close>.\<close>

definition cookie_pair :: "string \<Rightarrow> string" where
  "cookie_pair set_cookie = takeWhile (\<lambda>c. c \<noteq> CHR '';'') set_cookie"

section \<open>JSON bodies and query parameters\<close>

text \<open>
  \<open>express.json()\<close> and \<open>express.urlencoded()\<close> deliver the body as an object
  whose fields hold any JSON value. A number is identified by the text
  \<open>toString()\<close> gives for it (\<open>123\<close>, \<open>1.5\<close>, \<open>1e+21\<close>): the code never
  computes with a number, it only compares it with a string (never equal) and hands it
  to the driver, which writes that text. A body is read by field name,
  \<open>body ''notes''\<close> being \<open>req.body.notes\<close>; \<open>None\<close> is \<open>undefined\<close>, the
  value of a field the body does not have.
\<close>

datatype json =
  JNull
| JBool bool
| JNum string
| JStr string
| JArr "json list"
| JObj "(string \<times> json) list"

text \<open>
  What the code's libraries do and the source does not show is a parameter of the
  model: \<open>composite_text\<close> is the text the driver writes for an array (its array
  literal) or an object (\<open>JSON.stringify\<close>), and \<open>read_int4\<close> is the store's
  reading of a text as a 32-bit integer, \<open>None\<close> when the store refuses the text.
\<close>

record externals =
  composite_text :: "json \<Rightarrow> string"
  read_int4 :: "string \<Rightarrow> int option"

text \<open>The driver's \<open>prepareValue\<close>: \<open>undefined\<close> and \<open>null\<close> are sent as
  \<open>NULL\<close>, a string as itself, a number and a boolean as \<open>toString()\<close> writes
  them, an array and an object as the driver's text for them.\<close>

fun prepareValue :: "externals \<Rightarrow> json option \<Rightarrow> string option" where
  "prepareValue ext None = None"
| "prepareValue ext (Some JNull) = None"
| "prepareValue ext (Some (JBool b)) = Some (if b then ''true'' else ''false'')"
| "prepareValue ext (Some (JNum t)) = Some t"
| "prepareValue ext (Some (JStr s)) = Some s"
| "prepareValue ext (Some (JArr xs)) = Some (composite_text ext (JArr xs))"
| "prepareValue ext (Some (JObj kvs)) = Some (composite_text ext (JObj kvs))"

text \<open>
  A query parameter is read the same way: \<open>req.query.status\<close> is \<open>undefined\<close>
  (\<open>None\<close>) when the parameter is missing, a string for \<open>?status=x\<close>, and an
  array or an object when the parameter is repeated or written with brackets.
  \<open>v || d\<close> is \<open>v\<close> when \<open>v\<close> is truthy and \<open>d\<close> otherwise:
  \<open>undefined\<close>, \<open>null\<close>, \<open>false\<close>, the numbers 0 and NaN and the empty
  string are falsy, every other value is truthy.
\<close>

fun truthy :: "json option \<Rightarrow> bool" where
  "truthy None = False"
| "truthy (Some JNull) = False"
| "truthy (Some (JBool b)) = b"
| "truthy (Some (JNum t)) = (t \<noteq> ''0'' \<and> t \<noteq> ''NaN'')"
| "truthy (Some (JStr s)) = (s \<noteq> [])"
| "truthy (Some (JArr xs)) = True"
| "truthy (Some (JObj kvs)) = True"

text \<open>\<open>res.json(body)\<close> with no status set: status 200.\<close>

definition res_json :: "'a \<Rightarrow> nat \<times> 'a" where
  "res_json body = (200, body)"

section \<open>The store\<close>

text \<open>
  The three tables, with the columns of the \<open>CREATE TABLE\<close> statements. A column
  declared \<open>NOT NULL\<close> holds a value; every other column holds a value or
  \<open>NULL\<close> (\<open>None\<close>). A timestamp is a point on the store's clock. Each table
  has the sequence of its \<open>SERIAL\<close> key. The model gives every SQL statement of the
  code its relational meaning over these rows.
\<close>

type_synonym timestamp = int

record review =
  review_id :: int
  review_doc_slug :: string
  review_doc_title :: "string option"
  review_notes :: "string option"
  review_reviewed_at :: "timestamp option"

record issue =
  issue_id :: int
  issue_doc_slug :: "string option"
  issue_doc_title :: "string option"
  issue_issue_type :: string
  issue_description :: string
  issue_suggested_fix :: "string option"
  issue_status :: "string option"
  issue_resolution_notes :: "string option"
  issue_created_at :: "timestamp option"
  issue_resolved_at :: "timestamp option"

record gap =
  gap_id :: int
  gap_ticket_id :: "string option"
  gap_ticket_subject :: "string option"
  gap_description :: string
  gap_suggested_doc :: "string option"
  gap_status :: "string option"
  gap_doc_created_slug :: "string option"
  gap_created_at :: "timestamp option"

record database =
  docs_reviews :: "review list"
  docs_reviews_id_seq :: int
  docs_issues :: "issue list"
  docs_issues_id_seq :: int
  docs_gaps :: "gap list"
  docs_gaps_id_seq :: int

text \<open>The store after the three \<open>CREATE TABLE\<close> statements on a fresh database:
  no rows, and every sequence at its first value.\<close>

definition empty_db :: database where
  "empty_db = \<lparr>docs_reviews = [], docs_reviews_id_seq = 1,
                docs_issues = [], docs_issues_id_seq = 1,
                docs_gaps = [], docs_gaps_id_seq = 1\<rparr>"

text \<open>
  The store rejects a statement: for a text parameter that holds the character NUL,
  for a parameter of an integer column that is not the text of an integer, for a text
  too long for its \<open>VARCHAR(n)\<close> column, and for \<open>NULL\<close> in a \<open>NOT NULL\<close>
  column. The code has no \<open>catch\<close>: the handler's promise rejects and the handler
  writes no response. A rejected statement changes no row.
\<close>

datatype db_error =
  InvalidByteSequence
| InvalidInteger
| ValueTooLong nat
| NotNullViolation string

text \<open>One step after the other, stopping at the first rejection.\<close>

fun then_do :: "db_error + 'a \<Rightarrow> ('a \<Rightarrow> db_error + 'b) \<Rightarrow> db_error + 'b" where
  "then_do (Inl e) f = Inl e"
| "then_do (Inr a) f = f a"

text \<open>The parameters of a statement arrive first, as text: none may hold NUL.\<close>

fun bind_params :: "string option list \<Rightarrow> db_error + unit" where
  "bind_params [] = Inr ()"
| "bind_params (None # ps) = bind_params ps"
| "bind_params (Some s # ps) =
     (if CHR 0x00 \<in> set s then Inl InvalidByteSequence else bind_params ps)"

text \<open>A text assigned to a \<open>VARCHAR(n)\<close> column: kept when it has at most \<open>n\<close>
  characters; cut to \<open>n\<close> characters when all the characters after the first
  \<open>n\<close> are spaces; rejected otherwise. A \<open>TEXT\<close> column has no bound.\<close>

fun varchar :: "nat \<Rightarrow> string option \<Rightarrow> db_error + string option" where
  "varchar n None = Inr None"
| "varchar n (Some s) =
     (if length s \<le> n then Inr (Some s)
      else if list_all (\<lambda>c. c = CHR '' '') (drop n s) then Inr (Some (take n s))
      else Inl (ValueTooLong n))"

text \<open>\<open>ORDER BY column DESC\<close>: the greater timestamp first, and \<open>NULL\<close> before
  every timestamp (the store sorts \<open>NULL\<close> as the greatest value).
  \<open>desc_le a b\<close> says that \<open>a\<close> may stand before \<open>b\<close>. The order of rows with
  equal keys is not fixed by SQL; the model keeps one.\<close>

fun desc_le :: "timestamp option \<Rightarrow> timestamp option \<Rightarrow> bool" where
  "desc_le None _ = True"
| "desc_le (Some a) None = False"
| "desc_le (Some a) (Some b) = (b \<le> a)"

fun insert_desc :: "('r \<Rightarrow> timestamp option) \<Rightarrow> 'r \<Rightarrow> 'r list \<Rightarrow> 'r list" where
  "insert_desc key r [] = [r]"
| "insert_desc key r (x # xs) =
     (if desc_le (key r) (key x) then r # x # xs else x # insert_desc key r xs)"

definition order_by_desc :: "('r \<Rightarrow> timestamp option) \<Rightarrow> 'r list \<Rightarrow> 'r list" where
  "order_by_desc key rs = foldr (insert_desc key) rs []"

section \<open>Review handlers\<close>

text \<open>\<open>now\<close> is the value of \<open>NOW()\<close> for the statement. The length of a text is
  checked when the statement is planned, before a row is built; the \<open>NOT NULL\<close>
  constraint is checked on the built row, which has taken the next value of the
  sequence by then.\<close>

definition get_reviews :: "database \<Rightarrow> nat \<times> review list" where
  "get_reviews db = res_json (order_by_desc review_reviewed_at (docs_reviews db))"

definition post_reviews ::
  "externals \<Rightarrow> database \<Rightarrow> timestamp \<Rightarrow> (string \<rightharpoonup> json)
     \<Rightarrow> database \<times> (db_error + nat \<times> review)" where
  "post_reviews ext db now body =
     (let doc_slug = prepareValue ext (body ''doc_slug'');
          doc_title = prepareValue ext (body ''doc_title'');
          notes = prepareValue ext (body ''notes'')
      in case then_do (bind_params [doc_slug, doc_title, notes]) (\<lambda>_.
              then_do (varchar 255 doc_slug) (\<lambda>slug.
              then_do (varchar 500 doc_title) (\<lambda>title. Inr (slug, title)))) of
           Inl e \<Rightarrow> (db, Inl e)
         | Inr (slug, title) \<Rightarrow>
             (let new_id = docs_reviews_id_seq db;
                  db1 = db\<lparr>docs_reviews_id_seq := new_id + 1\<rparr>
              in case slug of
                   None \<Rightarrow> (db1, Inl (NotNullViolation ''doc_slug''))
                 | Some slug_text \<Rightarrow>
                     (let row = \<lparr>review_id = new_id, review_doc_slug = slug_text,
                                 review_doc_title = title, review_notes = notes,
                                 review_reviewed_at = Some now\<rparr>
                      in (db1\<lparr>docs_reviews := docs_reviews db1 @ [row]\<rparr>,
                          Inr (res_json row)))))"

text \<open>\<open>WHERE doc_slug = $1 ORDER BY reviewed_at DESC LIMIT 1\<close>, then
  \<open>rows[0] || null\<close>: \<open>None\<close> is the JSON \<open>null\<close>. \<open>slug\<close> is
  \<open>req.params.slug\<close>, the decoded segment of the path.\<close>

definition get_reviews_slug ::
  "database \<Rightarrow> string \<Rightarrow> db_error + nat \<times> review option" where
  "get_reviews_slug db slug =
     then_do (bind_params [Some slug]) (\<lambda>_.
       (let rows = take 1 (order_by_desc review_reviewed_at
                             (filter (\<lambda>r. review_doc_slug r = slug) (docs_reviews db)))
        in Inr (res_json (case rows of [] \<Rightarrow> None | r # _ \<Rightarrow> Some r))))"

section \<open>Issue handlers\<close>

text \<open>\<open>status = req.query.status || 'open'\<close>. With the string \<open>all\<close> the
  statement has no parameter; otherwise the status is its only parameter, and a row
  is selected when its status is not \<open>NULL\<close> and equal to the parameter.\<close>

definition get_issues ::
  "externals \<Rightarrow> database \<Rightarrow> json option \<Rightarrow> db_error + nat \<times> issue list" where
  "get_issues ext db query_status =
     (let status = (if truthy query_status then query_status else Some (JStr ''open''))
      in if status = Some (JStr ''all'')
         then Inr (res_json (order_by_desc issue_created_at (docs_issues db)))
         else (let p1 = prepareValue ext status
               in then_do (bind_params [p1]) (\<lambda>_.
                    Inr (res_json (order_by_desc issue_created_at
                           (filter (\<lambda>r. issue_status r = p1) (docs_issues db)))))))"

definition post_issues ::
  "externals \<Rightarrow> database \<Rightarrow> timestamp \<Rightarrow> (string \<rightharpoonup> json)
     \<Rightarrow> database \<times> (db_error + nat \<times> issue)" where
  "post_issues ext db now body =
     (let doc_slug = prepareValue ext (body ''doc_slug'');
          doc_title = prepareValue ext (body ''doc_title'');
          issue_type = prepareValue ext (body ''issue_type'');
          description = prepareValue ext (body ''description'');
          suggested_fix = prepareValue ext (body ''suggested_fix'')
      in case then_do (bind_params [doc_slug, doc_title, issue_type, description,
                                    suggested_fix]) (\<lambda>_.
              then_do (varchar 255 doc_slug) (\<lambda>slug.
              then_do (varchar 500 doc_title) (\<lambda>title.
              then_do (varchar 50 issue_type) (\<lambda>ty. Inr (slug, title, ty))))) of
           Inl e \<Rightarrow> (db, Inl e)
         | Inr (slug, title, ty) \<Rightarrow>
             (let new_id = docs_issues_id_seq db;
                  db1 = db\<lparr>docs_issues_id_seq := new_id + 1\<rparr>
              in case ty of
                   None \<Rightarrow> (db1, Inl (NotNullViolation ''issue_type''))
                 | Some ty_text \<Rightarrow>
                     (case description of
                        None \<Rightarrow> (db1, Inl (NotNullViolation ''description''))
                      | Some descr \<Rightarrow>
                          (let row = \<lparr>issue_id = new_id, issue_doc_slug = slug,
                                      issue_doc_title = title, issue_issue_type = ty_text,
                                      issue_description = descr,
                                      issue_suggested_fix = suggested_fix,
                                      issue_status = Some ''open'',
                                      issue_resolution_notes = None,
                                      issue_created_at = Some now,
                                      issue_resolved_at = None\<rparr>
                           in (db1\<lparr>docs_issues := docs_issues db1 @ [row]\<rparr>,
                               Inr (res_json row))))))"

text \<open>\<open>UPDATE ... WHERE id = $3 RETURNING *\<close>, then \<open>rows[0]\<close>: \<open>None\<close> is the
  \<open>undefined\<close> of an empty result. The text \<open>NOW()\<close> or \<open>NULL\<close> is chosen in
  JavaScript, by comparing the field of the body with two strings, and spliced into
  the statement. \<open>params_id\<close> is \<open>req.params.id\<close>, the decoded segment of the
  path.\<close>

definition patch_issues ::
  "externals \<Rightarrow> database \<Rightarrow> timestamp \<Rightarrow> string \<Rightarrow> (string \<rightharpoonup> json)
     \<Rightarrow> database \<times> (db_error + nat \<times> issue option)" where
  "patch_issues ext db now params_id body =
     (let status = body ''status'';
          resolution_notes = body ''resolution_notes'';
          resolved_at = (if status = Some (JStr ''resolved'') \<or> status = Some (JStr ''dismissed'')
                         then Some now else None);
          p1 = prepareValue ext status;
          p2 = prepareValue ext resolution_notes
      in case then_do (bind_params [p1, p2, Some params_id]) (\<lambda>_.
              then_do (case read_int4 ext params_id of
                         None \<Rightarrow> Inl InvalidInteger | Some i \<Rightarrow> Inr i) (\<lambda>i.
              then_do (varchar 20 p1) (\<lambda>st. Inr (i, st)))) of
           Inl e \<Rightarrow> (db, Inl e)
         | Inr (i, st) \<Rightarrow>
             (let upd = (\<lambda>r. r\<lparr>issue_status := st,
                               issue_resolution_notes := p2,
                               issue_resolved_at := resolved_at\<rparr>);
                  returning = map upd (filter (\<lambda>r. issue_id r = i) (docs_issues db))
              in (db\<lparr>docs_issues :=
                       map (\<lambda>r. if issue_id r = i then upd r else r) (docs_issues db)\<rparr>,
                  Inr (res_json (case returning of [] \<Rightarrow> None | r # _ \<Rightarrow> Some r)))))"

section \<open>Gap handlers\<close>

definition get_gaps ::
  "externals \<Rightarrow> database \<Rightarrow> json option \<Rightarrow> db_error + nat \<times> gap list" where
  "get_gaps ext db query_status =
     (let status = (if truthy query_status then query_status else Some (JStr ''open''))
      in if status = Some (JStr ''all'')
         then Inr (res_json (order_by_desc gap_created_at (docs_gaps db)))
         else (let p1 = prepareValue ext status
               in then_do (bind_params [p1]) (\<lambda>_.
                    Inr (res_json (order_by_desc gap_created_at
                           (filter (\<lambda>r. gap_status r = p1) (docs_gaps db)))))))"

definition post_gaps ::
  "externals \<Rightarrow> database \<Rightarrow> timestamp \<Rightarrow> (string \<rightharpoonup> json)
     \<Rightarrow> database \<times> (db_error + nat \<times> gap)" where
  "post_gaps ext db now body =
     (let ticket_id = prepareValue ext (body ''ticket_id'');
          ticket_subject = prepareValue ext (body ''ticket_subject'');
          description = prepareValue ext (body ''description'');
          suggested_doc = prepareValue ext (body ''suggested_doc'')
      in case then_do (bind_params [ticket_id, ticket_subject, description,
                                    suggested_doc]) (\<lambda>_.
              then_do (varchar 100 ticket_id) (\<lambda>tid.
              then_do (varchar 500 ticket_subject) (\<lambda>subject.
              then_do (varchar 255 suggested_doc) (\<lambda>doc. Inr (tid, subject, doc))))) of
           Inl e \<Rightarrow> (db, Inl e)
         | Inr (tid, subject, doc) \<Rightarrow>
             (let new_id = docs_gaps_id_seq db;
                  db1 = db\<lparr>docs_gaps_id_seq := new_id + 1\<rparr>
              in case description of
                   None \<Rightarrow> (db1, Inl (NotNullViolation ''description''))
                 | Some descr \<Rightarrow>
                     (let row = \<lparr>gap_id = new_id, gap_ticket_id = tid,
                                 gap_ticket_subject = subject, gap_description = descr,
                                 gap_suggested_doc = doc, gap_status = Some ''open'',
                                 gap_doc_created_slug = None,
                                 gap_created_at = Some now\<rparr>
                      in (db1\<lparr>docs_gaps := docs_gaps db1 @ [row]\<rparr>,
                          Inr (res_json row)))))"

definition patch_gaps ::
  "externals \<Rightarrow> database \<Rightarrow> string \<Rightarrow> (string \<rightharpoonup> json)
     \<Rightarrow> database \<times> (db_error + nat \<times> gap option)" where
  "patch_gaps ext db params_id body =
     (let status = body ''status'';
          doc_created_slug = body ''doc_created_slug'';
          p1 = prepareValue ext status;
          p2 = prepareValue ext doc_created_slug
      in case then_do (bind_params [p1, p2, Some params_id]) (\<lambda>_.
              then_do (case read_int4 ext params_id of
                         None \<Rightarrow> Inl InvalidInteger | Some i \<Rightarrow> Inr i) (\<lambda>i.
              then_do (varchar 20 p1) (\<lambda>st.
              then_do (varchar 255 p2) (\<lambda>slug. Inr (i, st, slug))))) of
           Inl e \<Rightarrow> (db, Inl e)
         | Inr (i, st, slug) \<Rightarrow>
             (let upd = (\<lambda>r. r\<lparr>gap_status := st, gap_doc_created_slug := slug\<rparr>);
                  returning = map upd (filter (\<lambda>r. gap_id r = i) (docs_gaps db))
              in (db\<lparr>docs_gaps :=
                       map (\<lambda>r. if gap_id r = i then upd r else r) (docs_gaps db)\<rparr>,
                  Inr (res_json (case returning of [] \<Rightarrow> None | r # _ \<Rightarrow> Some r)))))"

text \<open>A text column in a reply: \<open>NULL\<close> is written as \<open>null\<close>, a text as a
  string.\<close>

definition json_of_text :: "string option \<Rightarrow> json" where
  "json_of_text c = (case c of None \<Rightarrow> JNull | Some s \<Rightarrow> JStr s)"

text \<open>An instance of the parameters for the examples: the store reads the texts
  \<open>1\<close> and \<open>2\<close> as the integers 1 and 2, the only ids that occur there; no
  example holds an array or an object.\<close>

abbreviation example_externals :: externals where
  "example_externals \<equiv>
     \<lparr>composite_text = (\<lambda>v. []),
      read_int4 = (\<lambda>s. if s = ''1'' then Some 1 else if s = ''2'' then Some 2 else None)\<rparr>"

section \<open>Dashboard stats\<close>

text \<open>\<open>SELECT status, COUNT(*) ... GROUP BY status\<close>: one result row for each status
  that occurs, \<open>NULL\<close> being a group of its own, with the number of its rows. SQL
  does not fix the order of the groups; the model keeps one.\<close>

definition group_by_status :: "string option list \<Rightarrow> (string option \<times> nat) list" where
  "group_by_status ss = map (\<lambda>s. (s, count_list ss s)) (remdups ss)"

text \<open>The computed key \<open>[r.status]\<close>: a property key is a string, and \<open>null\<close>
  becomes the key \<open>null\<close>.\<close>

fun property_key :: "string option \<Rightarrow> string" where
  "property_key None = ''null''"
| "property_key (Some s) = s"

text \<open>\<open>rows.reduce((acc, r) => ({ ...acc, [r.status]: parseInt(r.count) }), {})\<close>:
  from the left, a later row replacing an earlier one under the same key. The count
  arrives as decimal text and \<open>parseInt\<close> reads the number back.\<close>

definition tally :: "(string option \<times> nat) list \<Rightarrow> (string \<rightharpoonup> nat)" where
  "tally rows = fold (\<lambda>r acc. acc(property_key (fst r) \<mapsto> snd r)) rows Map.empty"

text \<open>\<open>MAX(reviewed_at)\<close>: the greatest timestamp that is not \<open>NULL\<close>, and
  \<open>NULL\<close> when there is none.\<close>

fun max_timestamp :: "timestamp option list \<Rightarrow> timestamp option" where
  "max_timestamp [] = None"
| "max_timestamp (None # ts) = max_timestamp ts"
| "max_timestamp (Some t # ts) =
     (case max_timestamp ts of None \<Rightarrow> Some t | Some m \<Rightarrow> Some (max t m))"

record stats =
  stats_issues :: "string \<rightharpoonup> nat"
  stats_gaps :: "string \<rightharpoonup> nat"
  stats_reviews_total :: nat
  stats_reviews_last_review :: "timestamp option"

text \<open>The aggregate over \<open>docs_reviews\<close> has no \<open>GROUP BY\<close> and returns one row,
  also for an empty table; its count is a text of digits, never empty, so
  \<open>rows[0]?.count || 0\<close> is that count.\<close>

definition get_stats :: "database \<Rightarrow> nat \<times> stats" where
  "get_stats db =
     (let issues = group_by_status (map issue_status (docs_issues db));
          gaps = group_by_status (map gap_status (docs_gaps db));
          reviews = (length (docs_reviews db),
                     max_timestamp (map review_reviewed_at (docs_reviews db)))
      in res_json \<lparr>stats_issues = tally issues, stats_gaps = tally gaps,
                    stats_reviews_total = fst reviews,
                    stats_reviews_last_review = snd reviews\<rparr>)"

section \<open>Start-up\<close>

text \<open>
  \<open>setupDb\<close> awaits three statements in turn; \<open>accepts s\<close> tells whether the store
  accepts statement \<open>s\<close>. A rejected statement rejects \<open>setupDb\<close> at that point: the
  statements after it are not sent. The run of the process is the list of what it did,
  in order; \<open>Listen\<close> is the call of \<open>app.listen\<close>, made by the callback of
  \<open>setupDb().then\<close>, which runs only when \<open>setupDb\<close> resolves.
\<close>

datatype statement = CreateReviews | CreateIssues | CreateGaps

datatype event = Query statement | Log string | Listen

fun await_all :: "(statement \<Rightarrow> bool) \<Rightarrow> statement list \<Rightarrow> event list \<times> (statement + unit)" where
  "await_all accepts [] = ([], Inr ())"
| "await_all accepts (s # ss) =
     (if accepts s
      then (case await_all accepts ss of (evs, r) \<Rightarrow> (Query s # evs, r))
      else ([Query s], Inl s))"

definition setupDb :: "(statement \<Rightarrow> bool) \<Rightarrow> event list \<times> (statement + unit)" where
  "setupDb accepts =
     (case await_all accepts [CreateReviews, CreateIssues, CreateGaps] of
        (evs, Inl s) \<Rightarrow> (evs, Inl s)
      | (evs, Inr _) \<Rightarrow> (evs @ [Log ''Database tables ready''], Inr ()))"

definition startup :: "(statement \<Rightarrow> bool) \<Rightarrow> event list" where
  "startup accepts =
     (case setupDb accepts of
        (evs, Inl s) \<Rightarrow> evs
      | (evs, Inr _) \<Rightarrow> evs @ [Listen])"

section \<open>Properties of the authentication gate\<close>

lemma bearer_match:
  "(h \<noteq> [] \<and> take 7 h = ''Bearer '' \<and> Str (drop 7 h) = Str s) \<longleftrightarrow> h = ''Bearer '' @ s"
proof
  assume "h \<noteq> [] \<and> take 7 h = ''Bearer '' \<and> Str (drop 7 h) = Str s"
  then have "take 7 h @ drop 7 h = ''Bearer '' @ s" by simp
  then show "h = ''Bearer '' @ s" by simp
next
  assume "h = ''Bearer '' @ s"
  then show "h \<noteq> [] \<and> take 7 h = ''Bearer '' \<and> Str (drop 7 h) = Str s" by simp
qed

lemma cookie_parser_headers [simp]:
  "headers_authorization (cookie_parser raw) = headers_authorization raw"
  by (simp add: cookie_parser_def)

lemmas parse_eval = cookie_parser_def parse_segment_def js_trim_def js_whitespace_def assign_def

text \<open>
  The gate on a configured secret (\<open>APP_TOKEN\<close> is a string): a request reaches the
  handler exactly when its \<open>Authorization\<close> header is \<open>Bearer\<close>, one space and
  the secret, or the value the cookie parser stored under \<open>app_token\<close> is the
  secret. Every other request, whether it has no credential, an empty one or the secret
  in another case, gets status 401 with the JSON body \<open>{error: "Unauthorized"}\<close>,
  and the handler is not applied.
\<close>

theorem requireAuth_accepts_exactly_the_secret:
  assumes "APP_TOKEN = Str secret"
  shows "api_route APP_TOKEN handler raw =
     (if headers_authorization raw = Some (''Bearer '' @ secret)
         \<or> cookies (cookie_parser raw) ''app_token'' = Str secret
      then Inr (handler (cookie_parser raw))
      else Inl (401, [(''error'', ''Unauthorized'')]))"
proof (cases "headers_authorization raw")
  case None
  then show ?thesis
    using assms by (simp add: api_route_def requireAuth_def Let_def)
next
  case (Some h)
  then show ?thesis
    using assms bearer_match[of h secret]
    by (auto simp add: api_route_def requireAuth_def Let_def)
qed

text \<open>The secret \<open>s3cret\<close>: accepted as a bearer token and as a cookie; a request with
  no credential, with empty credentials and with the secret in another case is
  answered 401.\<close>

theorem requireAuth_accepts_exactly_the_secret_witness:
  "api_route (Str ''s3cret'') (\<lambda>req. ())
     \<lparr>headers_authorization = Some ''Bearer s3cret'', headers_cookie = None,
      cookies = (\<lambda>_. Undefined)\<rparr> = Inr ()
   \<and> api_route (Str ''s3cret'') (\<lambda>req. ())
     \<lparr>headers_authorization = None, headers_cookie = Some ''theme=dark; app_token=s3cret'',
      cookies = (\<lambda>_. Undefined)\<rparr> = Inr ()
   \<and> api_route (Str ''s3cret'') (\<lambda>req. ())
     \<lparr>headers_authorization = None, headers_cookie = None,
      cookies = (\<lambda>_. Undefined)\<rparr> = Inl (401, [(''error'', ''Unauthorized'')])
   \<and> api_route (Str ''s3cret'') (\<lambda>req. ())
     \<lparr>headers_authorization = Some ''Bearer '', headers_cookie = Some ''app_token='',
      cookies = (\<lambda>_. Undefined)\<rparr> = Inl (401, [(''error'', ''Unauthorized'')])
   \<and> api_route (Str ''s3cret'') (\<lambda>req. ())
     \<lparr>headers_authorization = Some ''Bearer S3CRET'', headers_cookie = Some ''app_token=S3cret'',
      cookies = (\<lambda>_. Undefined)\<rparr> = Inl (401, [(''error'', ''Unauthorized'')])"
proof -
  have s: "Str ''s3cret'' = Str ''s3cret''" by simp
  note t = requireAuth_accepts_exactly_the_secret [OF s, of "\<lambda>req. ()"]
  show ?thesis
    by (simp add: t parse_eval)
qed

text \<open>
  Claim C1. A credential equal to the secret is to be accepted as a bearer token and
  as the \<open>app_token\<close> cookie, and any other credential answered 401. The gate
  compares the secret with what the cookie parser stored, and the parser keeps of a
  cookie value only the text before its first \<open>=\<close>. So the secret
  \<open>dG9rZW4=\<close> sent as the cookie \<open>app_token=dG9rZW4=\<close> is answered 401,
  while the same secret passes as a bearer token; and with the secret \<open>dG9rZW4\<close>
  the cookie \<open>app_token=dG9rZW4=x\<close>, whose value is not the secret, passes.
\<close>

theorem secret_with_equals_rejected_as_cookie:
  "api_route (Str ''dG9rZW4='') (\<lambda>req. ())
     \<lparr>headers_authorization = None, headers_cookie = Some ''app_token=dG9rZW4='',
      cookies = (\<lambda>_. Undefined)\<rparr> = Inl (401, [(''error'', ''Unauthorized'')])
   \<and> api_route (Str ''dG9rZW4='') (\<lambda>req. ())
     \<lparr>headers_authorization = Some ''Bearer dG9rZW4='', headers_cookie = None,
      cookies = (\<lambda>_. Undefined)\<rparr> = Inr ()
   \<and> api_route (Str ''dG9rZW4'') (\<lambda>req. ())
     \<lparr>headers_authorization = None, headers_cookie = Some ''app_token=dG9rZW4=x'',
      cookies = (\<lambda>_. Undefined)\<rparr> = Inr ()"
  by (simp add: parse_eval api_route_def requireAuth_def)

text \<open>
  Claim C2. The parser splits the header on \<open>;\<close> and trims every segment, but it
  splits the segment on every \<open>=\<close> and keeps the first two pieces: the value of
  \<open>app_token=a=b\<close> is read as \<open>a\<close>, not as \<open>a=b\<close>. The cookie that
  \<open>/auth\<close> sets for the token \<open>a=b\<close> comes back as the pair
  \<open>app_token=a=b\<close>.
\<close>

theorem cookie_value_stops_at_second_equals:
  "cookies (cookie_parser \<lparr>headers_authorization = None,
       headers_cookie = Some ''theme=dark; app_token=a=b'', cookies = (\<lambda>_. Undefined)\<rparr>)
       ''app_token'' = Str ''a''
   \<and> cookies (cookie_parser \<lparr>headers_authorization = None,
       headers_cookie = Some ''theme=dark; app_token=a=b'', cookies = (\<lambda>_. Undefined)\<rparr>)
       ''theme'' = Str ''dark''
   \<and> auth_endpoint (Str ''a=b'') (Str ''a=b'')
     = Redirect ''app_token=a=b; Path=/; HttpOnly; SameSite=Strict; Max-Age=31536000'' ''/''
   \<and> cookie_pair ''app_token=a=b; Path=/; HttpOnly; SameSite=Strict; Max-Age=31536000''
     = ''app_token=a=b''"
  by (simp add: parse_eval auth_endpoint_def cookie_pair_def)

lemma parse_segment_other:
  "(case js_split CHR ''='' (js_trim seg) of [] \<Rightarrow> [] | name # _ \<Rightarrow> name) \<noteq> k
   \<Longrightarrow> parse_segment seg obj k = obj k"
  by (auto simp add: parse_segment_def assign_def split: list.splits)

lemma fold_parse_segment_other:
  "k \<notin> set (map (\<lambda>seg. case js_split CHR ''='' (js_trim seg) of [] \<Rightarrow> [] | name # _ \<Rightarrow> name) segs)
   \<Longrightarrow> fold parse_segment segs obj k = obj k"
proof (induction segs arbitrary: obj)
  case Nil
  then show ?case by simp
next
  case (Cons seg segs)
  then have "fold parse_segment segs (parse_segment seg obj) k = parse_segment seg obj k"
    by simp
  also have "\<dots> = obj k"
    using Cons.prems by (intro parse_segment_other) auto
  finally show ?case by simp
qed

lemma no_cookie_reads_undefined:
  assumes "case headers_cookie raw of None \<Rightarrow> True | Some h \<Rightarrow> k \<notin> set (cookie_names h)"
  shows "cookies (cookie_parser raw) k = Undefined"
  using assms
  by (auto simp add: cookie_parser_def cookie_names_def fold_parse_segment_other
      split: option.splits simp del: set_map)

text \<open>
  Claim C10. When \<open>APP_TOKEN\<close> is not set, the secret is \<open>undefined\<close>. A request
  with no cookie named \<open>app_token\<close> (no \<open>Cookie\<close> header, or a header with other
  names only) then reaches the handler, whatever its \<open>Authorization\<close> header is:
  the missing cookie reads as \<open>undefined\<close>, which is equal to the secret. No bearer
  token can match, since the text after \<open>Bearer \<close> is a string.
\<close>

theorem unset_secret_opens_the_gate:
  assumes "APP_TOKEN = Undefined"
    and "case headers_cookie raw of None \<Rightarrow> True
         | Some cookieHeader \<Rightarrow> ''app_token'' \<notin> set (cookie_names cookieHeader)"
  shows "api_route APP_TOKEN handler raw = Inr (handler (cookie_parser raw))"
  using assms(1) no_cookie_reads_undefined[OF assms(2)]
  by (simp add: api_route_def requireAuth_def Let_def split: option.splits)

text \<open>A request with no header at all, and one with a wrong bearer token and two other
  cookies: both pass.\<close>

theorem unset_secret_opens_the_gate_witness:
  "api_route Undefined (\<lambda>req. ())
     \<lparr>headers_authorization = None, headers_cookie = None, cookies = (\<lambda>_. Undefined)\<rparr> = Inr ()
   \<and> api_route Undefined (\<lambda>req. ())
     \<lparr>headers_authorization = Some ''Bearer guess'', headers_cookie = Some ''theme=dark; lang=en'',
      cookies = (\<lambda>_. Undefined)\<rparr> = Inr ()"
proof -
  have u: "Undefined = Undefined" by simp
  have a: "case headers_cookie \<lparr>headers_authorization = None, headers_cookie = None,
             cookies = (\<lambda>_. Undefined)\<rparr> of None \<Rightarrow> True
           | Some cookieHeader \<Rightarrow> ''app_token'' \<notin> set (cookie_names cookieHeader)"
    by simp
  have b: "case headers_cookie \<lparr>headers_authorization = Some ''Bearer guess'',
             headers_cookie = Some ''theme=dark; lang=en'', cookies = (\<lambda>_. Undefined)\<rparr> of
             None \<Rightarrow> True
           | Some cookieHeader \<Rightarrow> ''app_token'' \<notin> set (cookie_names cookieHeader)"
    by (simp add: cookie_names_def js_trim_def js_whitespace_def)
  show ?thesis
    using unset_secret_opens_the_gate [OF u a, of "\<lambda>req. ()"]
      unset_secret_opens_the_gate [OF u b, of "\<lambda>req. ()"]
    by simp
qed

section \<open>Properties of \<open>ORDER BY ... DESC\<close>\<close>

lemma desc_le_total: "desc_le a b \<or> desc_le b a"
  by (cases a; cases b) auto

lemma desc_le_trans: "desc_le a b \<Longrightarrow> desc_le b c \<Longrightarrow> desc_le a c"
  by (cases a; cases b; cases c) auto

lemma mset_insert_desc: "mset (insert_desc key r xs) = add_mset r (mset xs)"
  by (induction xs) auto

lemma mset_order_by_desc: "mset (order_by_desc key rs) = mset rs"
  by (induction rs) (auto simp add: order_by_desc_def mset_insert_desc)

lemma set_insert_desc: "set (insert_desc key r xs) = insert r (set xs)"
  by (induction xs) auto

lemma set_order_by_desc: "set (order_by_desc key rs) = set rs"
  using mset_order_by_desc[of key rs] by (metis set_mset_mset)

lemma sorted_insert_desc:
  "sorted_wrt (\<lambda>a b. desc_le (key a) (key b)) xs
   \<Longrightarrow> sorted_wrt (\<lambda>a b. desc_le (key a) (key b)) (insert_desc key r xs)"
proof (induction xs)
  case Nil
  then show ?case by simp
next
  case (Cons x xs)
  show ?case
  proof (cases "desc_le (key r) (key x)")
    case True
    then show ?thesis
      using Cons.prems by (auto intro: desc_le_trans)
  next
    case False
    then have "desc_le (key x) (key r)"
      using desc_le_total by blast
    then show ?thesis
      using False Cons by (auto simp add: set_insert_desc)
  qed
qed

lemma sorted_order_by_desc:
  "sorted_wrt (\<lambda>a b. desc_le (key a) (key b)) (order_by_desc key rs)"
proof (induction rs)
  case Nil
  then show ?case by (simp add: order_by_desc_def)
next
  case (Cons r rs)
  then show ?case
    using sorted_insert_desc[of key "order_by_desc key rs" r]
    by (simp add: order_by_desc_def)
qed

lemma desc_le_refl: "desc_le a a"
  by (cases a) auto


section \<open>Properties of the handlers\<close>

lemmas handler_eval = post_reviews_def post_issues_def post_gaps_def patch_issues_def
  get_issues_def get_gaps_def get_reviews_slug_def get_stats_def res_json_def empty_db_def
  order_by_desc_def Let_def

lemma then_do_Inr: "then_do x f = Inr y \<longleftrightarrow> (\<exists>a. x = Inr a \<and> f a = Inr y)"
  by (cases x) auto

lemma bind_params_Inr: "bind_params ps = Inr u \<longleftrightarrow> (\<forall>s. Some s \<in> set ps \<longrightarrow> CHR 0x00 \<notin> set s)"
  by (induction ps rule: bind_params.induct) auto

text \<open>
  Claim C7. For a slug without the character NUL, \<open>GET /api/reviews/:slug\<close> answers
  with status 200 in both cases. When a review with that \<open>doc_slug\<close> exists, the
  body is one such row, and no review of that slug comes before it in the descending
  order of \<open>reviewed_at\<close>: it has the greatest \<open>reviewed_at\<close>. When none exists,
  the body is \<open>null\<close>.
\<close>

theorem latest_review_or_null:
  assumes "CHR 0x00 \<notin> set slug"
  shows "(if \<exists>r \<in> set (docs_reviews db). review_doc_slug r = slug
    then \<exists>r. get_reviews_slug db slug = Inr (200, Some r)
           \<and> r \<in> set (docs_reviews db) \<and> review_doc_slug r = slug
           \<and> (\<forall>r' \<in> set (docs_reviews db). review_doc_slug r' = slug
                 \<longrightarrow> desc_le (review_reviewed_at r) (review_reviewed_at r'))
    else get_reviews_slug db slug = Inr (200, None))"
proof -
  define ms where "ms = filter (\<lambda>r. review_doc_slug r = slug) (docs_reviews db)"
  define sorted_ms where "sorted_ms = order_by_desc review_reviewed_at ms"
  have set_eq: "set sorted_ms = {r \<in> set (docs_reviews db). review_doc_slug r = slug}"
    by (simp add: sorted_ms_def ms_def set_order_by_desc)
  have srt: "sorted_wrt (\<lambda>a b. desc_le (review_reviewed_at a) (review_reviewed_at b)) sorted_ms"
    by (simp add: sorted_ms_def sorted_order_by_desc)
  have resp: "get_reviews_slug db slug =
      Inr (200, case sorted_ms of [] \<Rightarrow> None | r # _ \<Rightarrow> Some r)"
    using assms
    by (cases sorted_ms) (simp_all add: get_reviews_slug_def res_json_def sorted_ms_def ms_def)
  show ?thesis
  proof (cases sorted_ms)
    case Nil
    then have "\<not> (\<exists>r \<in> set (docs_reviews db). review_doc_slug r = slug)"
      using set_eq by auto
    then show ?thesis
      using Nil resp by simp
  next
    case (Cons r rest)
    have mem: "r \<in> set (docs_reviews db)" "review_doc_slug r = slug"
      using set_eq Cons by auto
    have first: "desc_le (review_reviewed_at r) (review_reviewed_at r')"
      if "r' \<in> set (docs_reviews db)" "review_doc_slug r' = slug" for r'
    proof -
      from that have "r' \<in> set sorted_ms" using set_eq by simp
      then have "r' = r \<or> r' \<in> set rest" using Cons by simp
      then show ?thesis
        using srt Cons desc_le_refl by auto
    qed
    have "get_reviews_slug db slug = Inr (200, Some r)"
      using resp Cons by simp
    then show ?thesis
      using mem first by auto
  qed
qed

text \<open>Two reviews of \<open>intro\<close> and one of \<open>faq\<close>: the later review of
  \<open>intro\<close> is returned, and \<open>null\<close> for a slug without reviews.\<close>

theorem latest_review_or_null_witness:
  "get_reviews_slug
      \<lparr>docs_reviews = [\<lparr>review_id = 1, review_doc_slug = ''intro'', review_doc_title = None,
            review_notes = None, review_reviewed_at = Some 10\<rparr>,
          \<lparr>review_id = 2, review_doc_slug = ''intro'', review_doc_title = None,
            review_notes = None, review_reviewed_at = Some 30\<rparr>,
          \<lparr>review_id = 3, review_doc_slug = ''faq'', review_doc_title = None,
            review_notes = None, review_reviewed_at = Some 40\<rparr>],
       docs_reviews_id_seq = 4, docs_issues = [], docs_issues_id_seq = 1,
       docs_gaps = [], docs_gaps_id_seq = 1\<rparr> ''intro''
     = Inr (200, Some \<lparr>review_id = 2, review_doc_slug = ''intro'', review_doc_title = None,
            review_notes = None, review_reviewed_at = Some 30\<rparr>)
   \<and> get_reviews_slug
      \<lparr>docs_reviews = [\<lparr>review_id = 1, review_doc_slug = ''intro'', review_doc_title = None,
            review_notes = None, review_reviewed_at = Some 10\<rparr>,
          \<lparr>review_id = 2, review_doc_slug = ''intro'', review_doc_title = None,
            review_notes = None, review_reviewed_at = Some 30\<rparr>,
          \<lparr>review_id = 3, review_doc_slug = ''faq'', review_doc_title = None,
            review_notes = None, review_reviewed_at = Some 40\<rparr>],
       docs_reviews_id_seq = 4, docs_issues = [], docs_issues_id_seq = 1,
       docs_gaps = [], docs_gaps_id_seq = 1\<rparr> ''setup''
     = Inr (200, None)"
proof -
  have nn: "CHR 0x00 \<notin> set ''setup''" by simp
  show ?thesis
    using latest_review_or_null [OF nn, of
      "\<lparr>docs_reviews = [\<lparr>review_id = 1, review_doc_slug = ''intro'', review_doc_title = None,
            review_notes = None, review_reviewed_at = Some 10\<rparr>,
          \<lparr>review_id = 2, review_doc_slug = ''intro'', review_doc_title = None,
            review_notes = None, review_reviewed_at = Some 30\<rparr>,
          \<lparr>review_id = 3, review_doc_slug = ''faq'', review_doc_title = None,
            review_notes = None, review_reviewed_at = Some 40\<rparr>],
       docs_reviews_id_seq = 4, docs_issues = [], docs_issues_id_seq = 1,
       docs_gaps = [], docs_gaps_id_seq = 1\<rparr>"]
    by (simp add: handler_eval)
qed

text \<open>The request \<open>GET /api/reviews/%00\<close> has the slug of one character NUL. No
  review has it, and the answer is not \<open>null\<close>: the store rejects the parameter
  and the handler writes no response.\<close>

theorem slug_with_nul_is_rejected:
  "docs_reviews empty_db = []
   \<and> get_reviews_slug empty_db [CHR 0x00] = Inl InvalidByteSequence"
  by (simp add: get_reviews_slug_def empty_db_def)

lemma patch_issues_replies:
  assumes "patch_issues ext db now pid body = (db', Inr reply)"
  shows "\<exists>i st. read_int4 ext pid = Some i
           \<and> varchar 20 (prepareValue ext (body ''status'')) = Inr st
           \<and> docs_issues db' =
               map (\<lambda>r. if issue_id r = i
                  then r\<lparr>issue_status := st,
                         issue_resolution_notes := prepareValue ext (body ''resolution_notes''),
                         issue_resolved_at :=
                           (if body ''status'' = Some (JStr ''resolved'')
                               \<or> body ''status'' = Some (JStr ''dismissed'')
                            then Some now else None)\<rparr>
                  else r) (docs_issues db)
           \<and> reply = (200, case filter (\<lambda>r. issue_id r = i) (docs_issues db) of
                 [] \<Rightarrow> None
               | r # _ \<Rightarrow> Some (r\<lparr>issue_status := st,
                         issue_resolution_notes := prepareValue ext (body ''resolution_notes''),
                         issue_resolved_at :=
                           (if body ''status'' = Some (JStr ''resolved'')
                               \<or> body ''status'' = Some (JStr ''dismissed'')
                            then Some now else None)\<rparr>))"
proof -
  let ?chk = "then_do (bind_params [prepareValue ext (body ''status''),
                   prepareValue ext (body ''resolution_notes''), Some pid]) (\<lambda>_.
              then_do (case read_int4 ext pid of
                         None \<Rightarrow> Inl InvalidInteger | Some i \<Rightarrow> Inr i) (\<lambda>i.
              then_do (varchar 20 (prepareValue ext (body ''status''))) (\<lambda>st. Inr (i, st))))"
  from assms obtain i st where chk: "?chk = Inr (i, st)"
    by (cases ?chk) (auto simp add: patch_issues_def Let_def)
  then have rd: "read_int4 ext pid = Some i"
    and vc: "varchar 20 (prepareValue ext (body ''status'')) = Inr st"
    by (auto simp add: then_do_Inr split: option.splits)
  define upd :: "issue \<Rightarrow> issue" where "upd = (\<lambda>r. r\<lparr>issue_status := st,
                         issue_resolution_notes := prepareValue ext (body ''resolution_notes''),
                         issue_resolved_at :=
                           (if body ''status'' = Some (JStr ''resolved'')
                               \<or> body ''status'' = Some (JStr ''dismissed'')
                            then Some now else None)\<rparr>)"
  have eq: "patch_issues ext db now pid body =
      (db\<lparr>docs_issues := map (\<lambda>r. if issue_id r = i then upd r else r) (docs_issues db)\<rparr>,
       Inr (200, case map upd (filter (\<lambda>r. issue_id r = i) (docs_issues db)) of
                   [] \<Rightarrow> None | r # _ \<Rightarrow> Some r))"
    unfolding upd_def by (simp add: patch_issues_def Let_def chk res_json_def)
  have cs: "(case map upd (filter (\<lambda>r. issue_id r = i) (docs_issues db)) of
                   [] \<Rightarrow> None | r # _ \<Rightarrow> Some r)
      = (case filter (\<lambda>r. issue_id r = i) (docs_issues db) of
                   [] \<Rightarrow> None | r # _ \<Rightarrow> Some (upd r))"
    by (cases "filter (\<lambda>r. issue_id r = i) (docs_issues db)") simp_all
  from assms eq cs have "docs_issues db' =
        map (\<lambda>r. if issue_id r = i then upd r else r) (docs_issues db)"
    and "reply = (200, case filter (\<lambda>r. issue_id r = i) (docs_issues db) of
                   [] \<Rightarrow> None | r # _ \<Rightarrow> Some (upd r))"
    by auto
  then show ?thesis
    using rd vc unfolding upd_def by blast
qed

lemma patch_issues_accepts:
  assumes "read_int4 ext pid = Some i" and "CHR 0x00 \<notin> set pid"
    and "body ''status'' = None \<or> body ''status'' = Some JNull
         \<or> (\<exists>s. body ''status'' = Some (JStr s) \<and> length s \<le> 20 \<and> CHR 0x00 \<notin> set s)"
    and "body ''resolution_notes'' = None \<or> body ''resolution_notes'' = Some JNull
         \<or> (\<exists>s. body ''resolution_notes'' = Some (JStr s) \<and> CHR 0x00 \<notin> set s)"
  shows "\<exists>db' reply. patch_issues ext db now pid body = (db', Inr reply)"
  using assms
  by (auto simp add: patch_issues_def Let_def)

text \<open>
  Claim C3. \<open>PATCH /api/issues/:id\<close>, where the store reads the id as the id of a
  stored issue, with a body whose \<open>status\<close> is a string of at most 20 characters,
  \<open>null\<close> or missing and whose \<open>resolution_notes\<close> is a string, \<open>null\<close> or
  missing, without the character NUL: the reply is 200 with a row of that id, and after
  it every row of that id has the status and the resolution notes of the body
  (\<open>NULL\<close> for \<open>null\<close> and for a missing field), and its \<open>resolved_at\<close> is
  \<open>now\<close> when the status of the body is exactly \<open>resolved\<close> or
  \<open>dismissed\<close> and \<open>NULL\<close> for every other status. The value is computed anew
  by every update: after any later \<open>PATCH\<close> of the same id with the status
  \<open>open\<close> that the store accepts, \<open>resolved_at\<close> is \<open>NULL\<close>.
\<close>

theorem patch_issue_sets_status_and_resolved_at:
  assumes "read_int4 ext params_id = Some i" and "CHR 0x00 \<notin> set params_id"
    and "r \<in> set (docs_issues db)" and "issue_id r = i"
    and "body ''status'' = None \<or> body ''status'' = Some JNull
         \<or> (\<exists>s. body ''status'' = Some (JStr s) \<and> length s \<le> 20 \<and> CHR 0x00 \<notin> set s)"
    and "body ''resolution_notes'' = None \<or> body ''resolution_notes'' = Some JNull
         \<or> (\<exists>s. body ''resolution_notes'' = Some (JStr s) \<and> CHR 0x00 \<notin> set s)"
  shows "\<exists>db' r'.
      patch_issues ext db now params_id body = (db', Inr (200, Some r'))
    \<and> r' \<in> set (docs_issues db') \<and> issue_id r' = i
    \<and> (\<forall>x \<in> set (docs_issues db'). issue_id x = i \<longrightarrow>
          issue_status x = (case body ''status'' of Some (JStr s) \<Rightarrow> Some s | _ \<Rightarrow> None)
          \<and> issue_resolution_notes x =
              (case body ''resolution_notes'' of Some (JStr s) \<Rightarrow> Some s | _ \<Rightarrow> None)
          \<and> issue_resolved_at x =
              (if body ''status'' = Some (JStr ''resolved'')
                  \<or> body ''status'' = Some (JStr ''dismissed'')
               then Some now else None))
    \<and> (\<forall>later reopen db2 reply.
          reopen ''status'' = Some (JStr ''open'')
          \<and> patch_issues ext db' later params_id reopen = (db2, Inr reply) \<longrightarrow>
          (\<forall>x \<in> set (docs_issues db2). issue_id x = i \<longrightarrow> issue_resolved_at x = None))"
proof -
  obtain db' reply where p: "patch_issues ext db now params_id body = (db', Inr reply)"
    using patch_issues_accepts[OF assms(1,2,5,6)] by blast
  from patch_issues_replies[OF p] assms(1) obtain st where
    vc: "varchar 20 (prepareValue ext (body ''status'')) = Inr st"
    and rows: "docs_issues db' =
               map (\<lambda>r. if issue_id r = i
                  then r\<lparr>issue_status := st,
                         issue_resolution_notes := prepareValue ext (body ''resolution_notes''),
                         issue_resolved_at :=
                           (if body ''status'' = Some (JStr ''resolved'')
                               \<or> body ''status'' = Some (JStr ''dismissed'')
                            then Some now else None)\<rparr>
                  else r) (docs_issues db)"
    and rp: "reply = (200, case filter (\<lambda>r. issue_id r = i) (docs_issues db) of
                 [] \<Rightarrow> None
               | r # _ \<Rightarrow> Some (r\<lparr>issue_status := st,
                         issue_resolution_notes := prepareValue ext (body ''resolution_notes''),
                         issue_resolved_at :=
                           (if body ''status'' = Some (JStr ''resolved'')
                               \<or> body ''status'' = Some (JStr ''dismissed'')
                            then Some now else None)\<rparr>))"
    by auto
  have st: "st = (case body ''status'' of Some (JStr s) \<Rightarrow> Some s | _ \<Rightarrow> None)"
    using vc assms(5) by auto
  have nt: "prepareValue ext (body ''resolution_notes'')
      = (case body ''resolution_notes'' of Some (JStr s) \<Rightarrow> Some s | _ \<Rightarrow> None)"
    using assms(6) by auto
  from assms(3,4) have "filter (\<lambda>r. issue_id r = i) (docs_issues db) \<noteq> []"
    by (auto simp add: filter_empty_conv)
  then obtain m ms where f: "filter (\<lambda>r. issue_id r = i) (docs_issues db) = m # ms"
    by (cases "filter (\<lambda>r. issue_id r = i) (docs_issues db)") auto
  have "m \<in> set (filter (\<lambda>r. issue_id r = i) (docs_issues db))"
    unfolding f by simp
  then have m: "m \<in> set (docs_issues db)" "issue_id m = i"
    by simp_all
  define r' where "r' = m\<lparr>issue_status := st,
                         issue_resolution_notes := prepareValue ext (body ''resolution_notes''),
                         issue_resolved_at :=
                           (if body ''status'' = Some (JStr ''resolved'')
                               \<or> body ''status'' = Some (JStr ''dismissed'')
                            then Some now else None)\<rparr>"
  have reply: "reply = (200, Some r')"
    unfolding rp f r'_def by simp
  have mem: "r' \<in> set (docs_issues db')"
    unfolding rows r'_def using m by (auto simp add: image_iff intro!: bexI[of _ m])
  have id: "issue_id r' = i"
    unfolding r'_def using m by simp
  have vals: "\<forall>x \<in> set (docs_issues db'). issue_id x = i \<longrightarrow>
          issue_status x = (case body ''status'' of Some (JStr s) \<Rightarrow> Some s | _ \<Rightarrow> None)
          \<and> issue_resolution_notes x =
              (case body ''resolution_notes'' of Some (JStr s) \<Rightarrow> Some s | _ \<Rightarrow> None)
          \<and> issue_resolved_at x =
              (if body ''status'' = Some (JStr ''resolved'')
                  \<or> body ''status'' = Some (JStr ''dismissed'')
               then Some now else None)"
  proof (intro ballI impI)
    fix x assume x: "x \<in> set (docs_issues db')" and xi: "issue_id x = i"
    from x obtain y where y: "y \<in> set (docs_issues db)"
      and xy: "x = (if issue_id y = i
                  then y\<lparr>issue_status := st,
                         issue_resolution_notes := prepareValue ext (body ''resolution_notes''),
                         issue_resolved_at :=
                           (if body ''status'' = Some (JStr ''resolved'')
                               \<or> body ''status'' = Some (JStr ''dismissed'')
                            then Some now else None)\<rparr>
                  else y)"
      unfolding rows by auto
    show "issue_status x = (case body ''status'' of Some (JStr s) \<Rightarrow> Some s | _ \<Rightarrow> None)
          \<and> issue_resolution_notes x =
              (case body ''resolution_notes'' of Some (JStr s) \<Rightarrow> Some s | _ \<Rightarrow> None)
          \<and> issue_resolved_at x =
              (if body ''status'' = Some (JStr ''resolved'')
                  \<or> body ''status'' = Some (JStr ''dismissed'')
               then Some now else None)"
    proof (cases "issue_id y = i")
      case True
      then show ?thesis using xy st nt by simp
    next
      case False
      then show ?thesis using xy xi by simp
    qed
  qed
  have later: "\<forall>later reopen db2 reply.
          reopen ''status'' = Some (JStr ''open'')
          \<and> patch_issues ext db' later params_id reopen = (db2, Inr reply) \<longrightarrow>
          (\<forall>x \<in> set (docs_issues db2). issue_id x = i \<longrightarrow> issue_resolved_at x = None)"
  proof (intro allI impI ballI)
    fix later reopen db2 reply2 x
    assume a: "reopen ''status'' = Some (JStr ''open'')
          \<and> patch_issues ext db' later params_id reopen = (db2, Inr reply2)"
      and x: "x \<in> set (docs_issues db2)" and xi: "issue_id x = i"
    from a have p2: "patch_issues ext db' later params_id reopen = (db2, Inr reply2)" by simp
    from patch_issues_replies[OF p2] assms(1) obtain st2 where
      rows2: "docs_issues db2 =
               map (\<lambda>r. if issue_id r = i
                  then r\<lparr>issue_status := st2,
                         issue_resolution_notes := prepareValue ext (reopen ''resolution_notes''),
                         issue_resolved_at :=
                           (if reopen ''status'' = Some (JStr ''resolved'')
                               \<or> reopen ''status'' = Some (JStr ''dismissed'')
                            then Some later else None)\<rparr>
                  else r) (docs_issues db')"
      by auto
    from x obtain y where y: "y \<in> set (docs_issues db')"
      and xy: "x = (if issue_id y = i
                  then y\<lparr>issue_status := st2,
                         issue_resolution_notes := prepareValue ext (reopen ''resolution_notes''),
                         issue_resolved_at :=
                           (if reopen ''status'' = Some (JStr ''resolved'')
                               \<or> reopen ''status'' = Some (JStr ''dismissed'')
                            then Some later else None)\<rparr>
                  else y)"
      unfolding rows2 by auto
    show "issue_resolved_at x = None"
    proof (cases "issue_id y = i")
      case True
      then show ?thesis using xy a by simp
    next
      case False
      then show ?thesis using xy xi by simp
    qed
  qed
  show ?thesis
    using p reply mem id vals later by blast
qed

text \<open>An open issue is resolved at time 20; the resolved issue is reopened at time
  30.\<close>

theorem patch_issue_sets_status_and_resolved_at_witness:
  "patch_issues example_externals
      \<lparr>docs_reviews = [], docs_reviews_id_seq = 1,
       docs_issues = [\<lparr>issue_id = 1, issue_doc_slug = None, issue_doc_title = None,
          issue_issue_type = ''typo'', issue_description = ''d'', issue_suggested_fix = None,
          issue_status = Some ''open'', issue_resolution_notes = None,
          issue_created_at = Some 10, issue_resolved_at = None\<rparr>],
       docs_issues_id_seq = 2, docs_gaps = [], docs_gaps_id_seq = 1\<rparr>
      20 ''1'' [''status'' \<mapsto> JStr ''resolved'', ''resolution_notes'' \<mapsto> JStr ''fixed'']
     = (\<lparr>docs_reviews = [], docs_reviews_id_seq = 1,
         docs_issues = [\<lparr>issue_id = 1, issue_doc_slug = None, issue_doc_title = None,
            issue_issue_type = ''typo'', issue_description = ''d'', issue_suggested_fix = None,
            issue_status = Some ''resolved'', issue_resolution_notes = Some ''fixed'',
            issue_created_at = Some 10, issue_resolved_at = Some 20\<rparr>],
         docs_issues_id_seq = 2, docs_gaps = [], docs_gaps_id_seq = 1\<rparr>,
        Inr (200, Some \<lparr>issue_id = 1, issue_doc_slug = None, issue_doc_title = None,
            issue_issue_type = ''typo'', issue_description = ''d'', issue_suggested_fix = None,
            issue_status = Some ''resolved'', issue_resolution_notes = Some ''fixed'',
            issue_created_at = Some 10, issue_resolved_at = Some 20\<rparr>))
   \<and> snd (patch_issues example_externals
      \<lparr>docs_reviews = [], docs_reviews_id_seq = 1,
       docs_issues = [\<lparr>issue_id = 1, issue_doc_slug = None, issue_doc_title = None,
          issue_issue_type = ''typo'', issue_description = ''d'', issue_suggested_fix = None,
          issue_status = Some ''resolved'', issue_resolution_notes = Some ''fixed'',
          issue_created_at = Some 10, issue_resolved_at = Some 20\<rparr>],
       docs_issues_id_seq = 2, docs_gaps = [], docs_gaps_id_seq = 1\<rparr>
      30 ''1'' [''status'' \<mapsto> JStr ''open''])
     = Inr (200, Some \<lparr>issue_id = 1, issue_doc_slug = None, issue_doc_title = None,
          issue_issue_type = ''typo'', issue_description = ''d'', issue_suggested_fix = None,
          issue_status = Some ''open'', issue_resolution_notes = None,
          issue_created_at = Some 10, issue_resolved_at = None\<rparr>)"
proof -
  let ?r = "\<lparr>issue_id = 1, issue_doc_slug = None, issue_doc_title = None,
          issue_issue_type = ''typo'', issue_description = ''d'', issue_suggested_fix = None,
          issue_status = Some ''open'', issue_resolution_notes = None,
          issue_created_at = Some 10, issue_resolved_at = None\<rparr>"
  let ?db = "\<lparr>docs_reviews = [], docs_reviews_id_seq = 1, docs_issues = [?r],
       docs_issues_id_seq = 2, docs_gaps = [], docs_gaps_id_seq = 1\<rparr>"
  let ?body = "[''status'' \<mapsto> JStr ''resolved'', ''resolution_notes'' \<mapsto> JStr ''fixed'']"
  have rd: "read_int4 example_externals ''1'' = Some 1" by simp
  have nn: "CHR 0x00 \<notin> set ''1''" by simp
  have mem: "?r \<in> set (docs_issues ?db)" by simp
  have id: "issue_id ?r = 1" by simp
  have st: "?body ''status'' = None \<or> ?body ''status'' = Some JNull
         \<or> (\<exists>s. ?body ''status'' = Some (JStr s) \<and> length s \<le> 20 \<and> CHR 0x00 \<notin> set s)"
    by simp
  have nt: "?body ''resolution_notes'' = None \<or> ?body ''resolution_notes'' = Some JNull
         \<or> (\<exists>s. ?body ''resolution_notes'' = Some (JStr s) \<and> CHR 0x00 \<notin> set s)"
    by simp
  show ?thesis
    using patch_issue_sets_status_and_resolved_at [OF rd nn mem id st nt, of 20]
    by (simp add: handler_eval)
qed

text \<open>A status of 21 characters: the column is \<open>VARCHAR(20)\<close>, the store rejects
  the \<open>UPDATE\<close>, the issue keeps its status and no reply is written. The status
  \<open>true\<close>, a boolean: the row gets the text \<open>true\<close>. Notes that hold the
  character NUL: the store rejects the \<open>UPDATE\<close>.\<close>

theorem status_too_long_is_rejected:
  "patch_issues example_externals
      \<lparr>docs_reviews = [], docs_reviews_id_seq = 1,
       docs_issues = [\<lparr>issue_id = 1, issue_doc_slug = None, issue_doc_title = None,
          issue_issue_type = ''typo'', issue_description = ''d'', issue_suggested_fix = None,
          issue_status = Some ''open'', issue_resolution_notes = None,
          issue_created_at = Some 10, issue_resolved_at = None\<rparr>],
       docs_issues_id_seq = 2, docs_gaps = [], docs_gaps_id_seq = 1\<rparr>
      20 ''1'' [''status'' \<mapsto> JStr ''xxxxxxxxxxxxxxxxxxxxx'']
     = (\<lparr>docs_reviews = [], docs_reviews_id_seq = 1,
         docs_issues = [\<lparr>issue_id = 1, issue_doc_slug = None, issue_doc_title = None,
            issue_issue_type = ''typo'', issue_description = ''d'', issue_suggested_fix = None,
            issue_status = Some ''open'', issue_resolution_notes = None,
            issue_created_at = Some 10, issue_resolved_at = None\<rparr>],
         docs_issues_id_seq = 2, docs_gaps = [], docs_gaps_id_seq = 1\<rparr>,
        Inl (ValueTooLong 20))
   \<and> length ''xxxxxxxxxxxxxxxxxxxxx'' = 21
   \<and> map issue_status (docs_issues (fst (patch_issues example_externals
      \<lparr>docs_reviews = [], docs_reviews_id_seq = 1,
       docs_issues = [\<lparr>issue_id = 1, issue_doc_slug = None, issue_doc_title = None,
          issue_issue_type = ''typo'', issue_description = ''d'', issue_suggested_fix = None,
          issue_status = Some ''open'', issue_resolution_notes = None,
          issue_created_at = Some 10, issue_resolved_at = None\<rparr>],
       docs_issues_id_seq = 2, docs_gaps = [], docs_gaps_id_seq = 1\<rparr>
      20 ''1'' [''status'' \<mapsto> JBool True]))) = [Some ''true'']
   \<and> snd (patch_issues example_externals
      \<lparr>docs_reviews = [], docs_reviews_id_seq = 1,
       docs_issues = [\<lparr>issue_id = 1, issue_doc_slug = None, issue_doc_title = None,
          issue_issue_type = ''typo'', issue_description = ''d'', issue_suggested_fix = None,
          issue_status = Some ''open'', issue_resolution_notes = None,
          issue_created_at = Some 10, issue_resolved_at = None\<rparr>],
       docs_issues_id_seq = 2, docs_gaps = [], docs_gaps_id_seq = 1\<rparr>
      20 ''1'' [''status'' \<mapsto> JStr ''open'', ''resolution_notes'' \<mapsto> JStr [CHR 0x00]])
     = Inl InvalidByteSequence"
  by (simp add: handler_eval)

lemma post_reviews_replies:
  assumes "post_reviews ext db now body = (db', Inr (code, rv))"
  shows "code = 200
     \<and> varchar 255 (prepareValue ext (body ''doc_slug'')) = Inr (Some (review_doc_slug rv))
     \<and> varchar 500 (prepareValue ext (body ''doc_title'')) = Inr (review_doc_title rv)
     \<and> review_notes rv = prepareValue ext (body ''notes'')
     \<and> review_reviewed_at rv = Some now
     \<and> rv \<in> set (docs_reviews db')"
proof -
  let ?chk = "then_do (bind_params [prepareValue ext (body ''doc_slug''),
                 prepareValue ext (body ''doc_title''), prepareValue ext (body ''notes'')]) (\<lambda>_.
              then_do (varchar 255 (prepareValue ext (body ''doc_slug''))) (\<lambda>slug.
              then_do (varchar 500 (prepareValue ext (body ''doc_title''))) (\<lambda>title.
                Inr (slug, title))))"
  from assms obtain slug title where chk: "?chk = Inr (slug, title)"
    by (cases ?chk) (auto simp add: post_reviews_def Let_def)
  then have v: "varchar 255 (prepareValue ext (body ''doc_slug'')) = Inr slug"
      "varchar 500 (prepareValue ext (body ''doc_title'')) = Inr title"
    by (auto simp add: then_do_Inr)
  have "post_reviews ext db now body =
      (case slug of
         None \<Rightarrow> (db\<lparr>docs_reviews_id_seq := docs_reviews_id_seq db + 1\<rparr>,
                  Inl (NotNullViolation ''doc_slug''))
       | Some t \<Rightarrow>
           (db\<lparr>docs_reviews_id_seq := docs_reviews_id_seq db + 1,
               docs_reviews := docs_reviews db @
                 [\<lparr>review_id = docs_reviews_id_seq db, review_doc_slug = t,
                   review_doc_title = title,
                   review_notes = prepareValue ext (body ''notes''),
                   review_reviewed_at = Some now\<rparr>]\<rparr>,
            Inr (200, \<lparr>review_id = docs_reviews_id_seq db, review_doc_slug = t,
                   review_doc_title = title,
                   review_notes = prepareValue ext (body ''notes''),
                   review_reviewed_at = Some now\<rparr>)))"
    by (simp add: post_reviews_def Let_def chk res_json_def split: option.split)
  with assms v show ?thesis
    by (cases slug) auto
qed

lemma post_issues_replies:
  assumes "post_issues ext db now body = (db', Inr (code, row))"
  shows "code = 200
     \<and> varchar 255 (prepareValue ext (body ''doc_slug'')) = Inr (issue_doc_slug row)
     \<and> varchar 500 (prepareValue ext (body ''doc_title'')) = Inr (issue_doc_title row)
     \<and> varchar 50 (prepareValue ext (body ''issue_type'')) = Inr (Some (issue_issue_type row))
     \<and> prepareValue ext (body ''description'') = Some (issue_description row)
     \<and> issue_suggested_fix row = prepareValue ext (body ''suggested_fix'')
     \<and> issue_status row = Some ''open''
     \<and> issue_created_at row = Some now
     \<and> row \<in> set (docs_issues db')"
proof -
  let ?chk = "then_do (bind_params [prepareValue ext (body ''doc_slug''),
                 prepareValue ext (body ''doc_title''), prepareValue ext (body ''issue_type''),
                 prepareValue ext (body ''description''),
                 prepareValue ext (body ''suggested_fix'')]) (\<lambda>_.
              then_do (varchar 255 (prepareValue ext (body ''doc_slug''))) (\<lambda>slug.
              then_do (varchar 500 (prepareValue ext (body ''doc_title''))) (\<lambda>title.
              then_do (varchar 50 (prepareValue ext (body ''issue_type''))) (\<lambda>ty.
                Inr (slug, title, ty)))))"
  from assms obtain slug title ty where chk: "?chk = Inr (slug, title, ty)"
    by (cases ?chk) (auto simp add: post_issues_def Let_def)
  then have v: "varchar 255 (prepareValue ext (body ''doc_slug'')) = Inr slug"
      "varchar 500 (prepareValue ext (body ''doc_title'')) = Inr title"
      "varchar 50 (prepareValue ext (body ''issue_type'')) = Inr ty"
    by (auto simp add: then_do_Inr)
  have "post_issues ext db now body =
      (case ty of
         None \<Rightarrow> (db\<lparr>docs_issues_id_seq := docs_issues_id_seq db + 1\<rparr>,
                  Inl (NotNullViolation ''issue_type''))
       | Some t \<Rightarrow>
           (case prepareValue ext (body ''description'') of
              None \<Rightarrow> (db\<lparr>docs_issues_id_seq := docs_issues_id_seq db + 1\<rparr>,
                       Inl (NotNullViolation ''description''))
            | Some d \<Rightarrow>
                (db\<lparr>docs_issues_id_seq := docs_issues_id_seq db + 1,
                    docs_issues := docs_issues db @
                      [\<lparr>issue_id = docs_issues_id_seq db, issue_doc_slug = slug,
                        issue_doc_title = title, issue_issue_type = t,
                        issue_description = d,
                        issue_suggested_fix = prepareValue ext (body ''suggested_fix''),
                        issue_status = Some ''open'', issue_resolution_notes = None,
                        issue_created_at = Some now, issue_resolved_at = None\<rparr>]\<rparr>,
                 Inr (200, \<lparr>issue_id = docs_issues_id_seq db, issue_doc_slug = slug,
                        issue_doc_title = title, issue_issue_type = t,
                        issue_description = d,
                        issue_suggested_fix = prepareValue ext (body ''suggested_fix''),
                        issue_status = Some ''open'', issue_resolution_notes = None,
                        issue_created_at = Some now, issue_resolved_at = None\<rparr>))))"
    by (simp add: post_issues_def Let_def chk res_json_def split: option.split)
  with assms v show ?thesis
    by (cases ty; cases "prepareValue ext (body ''description'')") auto
qed

lemma post_gaps_replies:
  assumes "post_gaps ext db now body = (db', Inr (code, row))"
  shows "code = 200
     \<and> varchar 100 (prepareValue ext (body ''ticket_id'')) = Inr (gap_ticket_id row)
     \<and> varchar 500 (prepareValue ext (body ''ticket_subject'')) = Inr (gap_ticket_subject row)
     \<and> prepareValue ext (body ''description'') = Some (gap_description row)
     \<and> varchar 255 (prepareValue ext (body ''suggested_doc'')) = Inr (gap_suggested_doc row)
     \<and> gap_status row = Some ''open''
     \<and> gap_created_at row = Some now
     \<and> row \<in> set (docs_gaps db')"
proof -
  let ?chk = "then_do (bind_params [prepareValue ext (body ''ticket_id''),
                 prepareValue ext (body ''ticket_subject''),
                 prepareValue ext (body ''description''),
                 prepareValue ext (body ''suggested_doc'')]) (\<lambda>_.
              then_do (varchar 100 (prepareValue ext (body ''ticket_id''))) (\<lambda>tid.
              then_do (varchar 500 (prepareValue ext (body ''ticket_subject''))) (\<lambda>subject.
              then_do (varchar 255 (prepareValue ext (body ''suggested_doc''))) (\<lambda>doc.
                Inr (tid, subject, doc)))))"
  from assms obtain tid subject doc where chk: "?chk = Inr (tid, subject, doc)"
    by (cases ?chk) (auto simp add: post_gaps_def Let_def)
  then have v: "varchar 100 (prepareValue ext (body ''ticket_id'')) = Inr tid"
      "varchar 500 (prepareValue ext (body ''ticket_subject'')) = Inr subject"
      "varchar 255 (prepareValue ext (body ''suggested_doc'')) = Inr doc"
    by (auto simp add: then_do_Inr)
  have "post_gaps ext db now body =
      (case prepareValue ext (body ''description'') of
         None \<Rightarrow> (db\<lparr>docs_gaps_id_seq := docs_gaps_id_seq db + 1\<rparr>,
                  Inl (NotNullViolation ''description''))
       | Some d \<Rightarrow>
           (db\<lparr>docs_gaps_id_seq := docs_gaps_id_seq db + 1,
               docs_gaps := docs_gaps db @
                 [\<lparr>gap_id = docs_gaps_id_seq db, gap_ticket_id = tid,
                   gap_ticket_subject = subject, gap_description = d,
                   gap_suggested_doc = doc, gap_status = Some ''open'',
                   gap_doc_created_slug = None, gap_created_at = Some now\<rparr>]\<rparr>,
            Inr (200, \<lparr>gap_id = docs_gaps_id_seq db, gap_ticket_id = tid,
                   gap_ticket_subject = subject, gap_description = d,
                   gap_suggested_doc = doc, gap_status = Some ''open'',
                   gap_doc_created_slug = None, gap_created_at = Some now\<rparr>)))"
    by (simp add: post_gaps_def Let_def chk res_json_def split: option.split)
  with assms v show ?thesis
    by (cases "prepareValue ext (body ''description'')") auto
qed



text \<open>
  Claim C8. In the row a \<open>POST\<close> returns, a column the handler takes from the body
  holds the string the body held, when that string is not longer than the
  \<open>VARCHAR(n)\<close> column allows (a \<open>TEXT\<close> column allows any length), and it
  holds \<open>NULL\<close> when the field was \<open>null\<close> or missing.
\<close>

theorem post_returns_the_text_sent:
  "(post_reviews ext db now body = (db1, Inr (code1, rv)) \<longrightarrow>
        (\<forall>s. body ''doc_slug'' = Some (JStr s) \<and> length s \<le> 255 \<longrightarrow> review_doc_slug rv = s)
      \<and> (\<forall>s. body ''doc_title'' = Some (JStr s) \<and> length s \<le> 500 \<longrightarrow>
            review_doc_title rv = Some s)
      \<and> (body ''doc_title'' = Some JNull \<or> body ''doc_title'' = None \<longrightarrow>
            review_doc_title rv = None)
      \<and> (\<forall>s. body ''notes'' = Some (JStr s) \<longrightarrow> review_notes rv = Some s)
      \<and> (body ''notes'' = Some JNull \<or> body ''notes'' = None \<longrightarrow> review_notes rv = None))
   \<and> (post_issues ext db now body = (db2, Inr (code2, iss)) \<longrightarrow>
        (\<forall>s. body ''doc_slug'' = Some (JStr s) \<and> length s \<le> 255 \<longrightarrow>
            issue_doc_slug iss = Some s)
      \<and> (body ''doc_slug'' = Some JNull \<or> body ''doc_slug'' = None \<longrightarrow>
            issue_doc_slug iss = None)
      \<and> (\<forall>s. body ''doc_title'' = Some (JStr s) \<and> length s \<le> 500 \<longrightarrow>
            issue_doc_title iss = Some s)
      \<and> (body ''doc_title'' = Some JNull \<or> body ''doc_title'' = None \<longrightarrow>
            issue_doc_title iss = None)
      \<and> (\<forall>s. body ''issue_type'' = Some (JStr s) \<and> length s \<le> 50 \<longrightarrow>
            issue_issue_type iss = s)
      \<and> (\<forall>s. body ''description'' = Some (JStr s) \<longrightarrow> issue_description iss = s)
      \<and> (\<forall>s. body ''suggested_fix'' = Some (JStr s) \<longrightarrow> issue_suggested_fix iss = Some s)
      \<and> (body ''suggested_fix'' = Some JNull \<or> body ''suggested_fix'' = None \<longrightarrow>
            issue_suggested_fix iss = None))
   \<and> (post_gaps ext db now body = (db3, Inr (code3, gp)) \<longrightarrow>
        (\<forall>s. body ''ticket_id'' = Some (JStr s) \<and> length s \<le> 100 \<longrightarrow>
            gap_ticket_id gp = Some s)
      \<and> (body ''ticket_id'' = Some JNull \<or> body ''ticket_id'' = None \<longrightarrow>
            gap_ticket_id gp = None)
      \<and> (\<forall>s. body ''ticket_subject'' = Some (JStr s) \<and> length s \<le> 500 \<longrightarrow>
            gap_ticket_subject gp = Some s)
      \<and> (body ''ticket_subject'' = Some JNull \<or> body ''ticket_subject'' = None \<longrightarrow>
            gap_ticket_subject gp = None)
      \<and> (\<forall>s. body ''description'' = Some (JStr s) \<longrightarrow> gap_description gp = s)
      \<and> (\<forall>s. body ''suggested_doc'' = Some (JStr s) \<and> length s \<le> 255 \<longrightarrow>
            gap_suggested_doc gp = Some s)
      \<and> (body ''suggested_doc'' = Some JNull \<or> body ''suggested_doc'' = None \<longrightarrow>
            gap_suggested_doc gp = None))"
proof (intro conjI impI)
  assume a: "post_reviews ext db now body = (db1, Inr (code1, rv))"
  note f = post_reviews_replies[OF a]
  show "\<forall>s. body ''doc_slug'' = Some (JStr s) \<and> length s \<le> 255 \<longrightarrow> review_doc_slug rv = s"
    using f by auto
  show "\<forall>s. body ''doc_title'' = Some (JStr s) \<and> length s \<le> 500 \<longrightarrow>
            review_doc_title rv = Some s"
    using f by auto
  show "review_doc_title rv = None"
    if "body ''doc_title'' = Some JNull \<or> body ''doc_title'' = None"
    using f that by auto
  show "\<forall>s. body ''notes'' = Some (JStr s) \<longrightarrow> review_notes rv = Some s"
    using f by auto
  show "review_notes rv = None" if "body ''notes'' = Some JNull \<or> body ''notes'' = None"
    using f that by auto
next
  assume a: "post_issues ext db now body = (db2, Inr (code2, iss))"
  note f = post_issues_replies[OF a]
  show "\<forall>s. body ''doc_slug'' = Some (JStr s) \<and> length s \<le> 255 \<longrightarrow>
            issue_doc_slug iss = Some s"
    using f by auto
  show "issue_doc_slug iss = None"
    if "body ''doc_slug'' = Some JNull \<or> body ''doc_slug'' = None"
    using f that by auto
  show "\<forall>s. body ''doc_title'' = Some (JStr s) \<and> length s \<le> 500 \<longrightarrow>
            issue_doc_title iss = Some s"
    using f by auto
  show "issue_doc_title iss = None"
    if "body ''doc_title'' = Some JNull \<or> body ''doc_title'' = None"
    using f that by auto
  show "\<forall>s. body ''issue_type'' = Some (JStr s) \<and> length s \<le> 50 \<longrightarrow>
            issue_issue_type iss = s"
    using f by auto
  show "\<forall>s. body ''description'' = Some (JStr s) \<longrightarrow> issue_description iss = s"
    using f by auto
  show "\<forall>s. body ''suggested_fix'' = Some (JStr s) \<longrightarrow> issue_suggested_fix iss = Some s"
    using f by auto
  show "issue_suggested_fix iss = None"
    if "body ''suggested_fix'' = Some JNull \<or> body ''suggested_fix'' = None"
    using f that by auto
next
  assume a: "post_gaps ext db now body = (db3, Inr (code3, gp))"
  note f = post_gaps_replies[OF a]
  show "\<forall>s. body ''ticket_id'' = Some (JStr s) \<and> length s \<le> 100 \<longrightarrow>
            gap_ticket_id gp = Some s"
    using f by auto
  show "gap_ticket_id gp = None"
    if "body ''ticket_id'' = Some JNull \<or> body ''ticket_id'' = None"
    using f that by auto
  show "\<forall>s. body ''ticket_subject'' = Some (JStr s) \<and> length s \<le> 500 \<longrightarrow>
            gap_ticket_subject gp = Some s"
    using f by auto
  show "gap_ticket_subject gp = None"
    if "body ''ticket_subject'' = Some JNull \<or> body ''ticket_subject'' = None"
    using f that by auto
  show "\<forall>s. body ''description'' = Some (JStr s) \<longrightarrow> gap_description gp = s"
    using f by auto
  show "\<forall>s. body ''suggested_doc'' = Some (JStr s) \<and> length s \<le> 255 \<longrightarrow>
            gap_suggested_doc gp = Some s"
    using f by auto
  show "gap_suggested_doc gp = None"
    if "body ''suggested_doc'' = Some JNull \<or> body ''suggested_doc'' = None"
    using f that by auto
qed

text \<open>One body for each table, and a review without \<open>doc_slug\<close>, which the
  store rejects.\<close>

theorem post_returns_the_text_sent_witness:
  "post_reviews example_externals empty_db 10
       [''doc_slug'' \<mapsto> JStr ''intro'', ''doc_title'' \<mapsto> JStr ''Intro'', ''notes'' \<mapsto> JNull]
     = (\<lparr>docs_reviews = [\<lparr>review_id = 1, review_doc_slug = ''intro'',
            review_doc_title = Some ''Intro'', review_notes = None,
            review_reviewed_at = Some 10\<rparr>],
         docs_reviews_id_seq = 2, docs_issues = [], docs_issues_id_seq = 1,
         docs_gaps = [], docs_gaps_id_seq = 1\<rparr>,
        Inr (200, \<lparr>review_id = 1, review_doc_slug = ''intro'',
            review_doc_title = Some ''Intro'', review_notes = None,
            review_reviewed_at = Some 10\<rparr>))
   \<and> snd (post_issues example_externals empty_db 10
       [''doc_slug'' \<mapsto> JStr ''intro'', ''issue_type'' \<mapsto> JStr ''typo'', ''description'' \<mapsto> JStr ''d'', ''suggested_fix'' \<mapsto> JStr ''f''])
     = Inr (200, \<lparr>issue_id = 1, issue_doc_slug = Some ''intro'', issue_doc_title = None,
            issue_issue_type = ''typo'', issue_description = ''d'',
            issue_suggested_fix = Some ''f'', issue_status = Some ''open'',
            issue_resolution_notes = None, issue_created_at = Some 10,
            issue_resolved_at = None\<rparr>)
   \<and> snd (post_gaps example_externals empty_db 10
       [''ticket_id'' \<mapsto> JStr ''T-1'', ''ticket_subject'' \<mapsto> JStr ''s'', ''description'' \<mapsto> JStr ''d'', ''suggested_doc'' \<mapsto> JStr ''faq''])
     = Inr (200, \<lparr>gap_id = 1, gap_ticket_id = Some ''T-1'', gap_ticket_subject = Some ''s'',
            gap_description = ''d'', gap_suggested_doc = Some ''faq'',
            gap_status = Some ''open'', gap_doc_created_slug = None,
            gap_created_at = Some 10\<rparr>)
   \<and> snd (post_reviews example_externals empty_db 10 Map.empty)
     = Inl (NotNullViolation ''doc_slug'')"
  using post_returns_the_text_sent [of example_externals empty_db 10
      "[''doc_slug'' \<mapsto> JStr ''intro'', ''doc_title'' \<mapsto> JStr ''Intro'', ''notes'' \<mapsto> JNull]"]
  by (simp add: handler_eval)

text \<open>The title 123, a number, comes back as the string \<open>123\<close>. An
  \<open>issue_type\<close> of 50 letters and a space, 51 characters for a \<open>VARCHAR(50)\<close>
  column, comes back without the space.\<close>

theorem number_returns_as_text:
  "map (\<lambda>rv. json_of_text (review_doc_title rv))
     (docs_reviews (fst (post_reviews example_externals empty_db 10
        [''doc_slug'' \<mapsto> JStr ''intro'', ''doc_title'' \<mapsto> JNum ''123''])))
     = [JStr ''123'']
   \<and> snd (post_reviews example_externals empty_db 10
        [''doc_slug'' \<mapsto> JStr ''intro'', ''doc_title'' \<mapsto> JNum ''123''])
     = Inr (200, \<lparr>review_id = 1, review_doc_slug = ''intro'',
            review_doc_title = Some ''123'', review_notes = None,
            review_reviewed_at = Some 10\<rparr>)
   \<and> snd (post_issues example_externals empty_db 10
        [''issue_type'' \<mapsto> JStr ''aaaaaaaaaaaaaaaaaaaaaaaaaaaaaaaaaaaaaaaaaaaaaaaaaa '', ''description'' \<mapsto> JStr ''d''])
     = Inr (200, \<lparr>issue_id = 1, issue_doc_slug = None, issue_doc_title = None,
            issue_issue_type = ''aaaaaaaaaaaaaaaaaaaaaaaaaaaaaaaaaaaaaaaaaaaaaaaaaa'',
            issue_description = ''d'', issue_suggested_fix = None,
            issue_status = Some ''open'', issue_resolution_notes = None,
            issue_created_at = Some 10, issue_resolved_at = None\<rparr>)"
  by (simp add: handler_eval json_of_text_def)

lemma falsy_cases: "(q = None \<or> q = Some (JStr []) \<or> \<not> truthy q) = (\<not> truthy q)"
  by (cases q rule: truthy.cases) auto

lemma get_issues_eq:
  "get_issues ext db q =
     (if \<not> truthy q
      then Inr (200, order_by_desc issue_created_at
                  (filter (\<lambda>r. issue_status r = Some ''open'') (docs_issues db)))
      else if q = Some (JStr ''all'')
      then Inr (200, order_by_desc issue_created_at (docs_issues db))
      else then_do (bind_params [prepareValue ext q]) (\<lambda>_.
             Inr (200, order_by_desc issue_created_at
                    (filter (\<lambda>r. issue_status r = prepareValue ext q) (docs_issues db)))))"
  by (simp add: get_issues_def Let_def res_json_def)

lemma get_gaps_eq:
  "get_gaps ext db q =
     (if \<not> truthy q
      then Inr (200, order_by_desc gap_created_at
                  (filter (\<lambda>r. gap_status r = Some ''open'') (docs_gaps db)))
      else if q = Some (JStr ''all'')
      then Inr (200, order_by_desc gap_created_at (docs_gaps db))
      else then_do (bind_params [prepareValue ext q]) (\<lambda>_.
             Inr (200, order_by_desc gap_created_at
                    (filter (\<lambda>r. gap_status r = prepareValue ext q) (docs_gaps db)))))"
  by (simp add: get_gaps_def Let_def res_json_def)

text \<open>
  Claim C5. For a \<open>status\<close> parameter whose text holds no character NUL,
  \<open>GET /api/issues\<close> and \<open>GET /api/gaps\<close> answer 200 with: the rows of status
  \<open>open\<close> when the parameter is missing or empty (falsy); every row when it is the
  string \<open>all\<close>; and for any other value exactly the rows whose status is that
  value (for a string the string itself, for an array or an object the text the driver
  writes for it). The rows are those of the table, each as often as it is there, in
  descending order of \<open>created_at\<close>.
\<close>

theorem list_filters_by_status_newest_first:
  assumes "\<forall>t. prepareValue ext q = Some t \<longrightarrow> CHR 0x00 \<notin> set t"
  shows "\<exists>rows grows.
     get_issues ext db q = Inr (200, rows)
   \<and> mset rows =
       mset (filter (\<lambda>r. if q = None \<or> q = Some (JStr []) \<or> \<not> truthy q
                          then issue_status r = Some ''open''
                          else if q = Some (JStr ''all'') then True
                          else issue_status r = prepareValue ext q) (docs_issues db))
   \<and> sorted_wrt (\<lambda>a b. desc_le (issue_created_at a) (issue_created_at b)) rows
   \<and> get_gaps ext db q = Inr (200, grows)
   \<and> mset grows =
       mset (filter (\<lambda>r. if q = None \<or> q = Some (JStr []) \<or> \<not> truthy q
                          then gap_status r = Some ''open''
                          else if q = Some (JStr ''all'') then True
                          else gap_status r = prepareValue ext q) (docs_gaps db))
   \<and> sorted_wrt (\<lambda>a b. desc_le (gap_created_at a) (gap_created_at b)) grows"
proof -
  have b: "bind_params [prepareValue ext q] = Inr ()"
    using assms by (simp add: bind_params_Inr)
  consider (falsy) "\<not> truthy q" | (all) "truthy q" "q = Some (JStr ''all'')"
    | (other) "truthy q" "q \<noteq> Some (JStr ''all'')"
    by blast
  then show ?thesis
  proof cases
    case falsy
    then show ?thesis
      unfolding falsy_cases get_issues_eq get_gaps_eq
      by (simp add: mset_order_by_desc sorted_order_by_desc)
  next
    case all
    then show ?thesis
      unfolding falsy_cases get_issues_eq get_gaps_eq
      by (simp add: mset_order_by_desc sorted_order_by_desc)
  next
    case other
    then show ?thesis
      unfolding falsy_cases get_issues_eq get_gaps_eq
      by (simp add: b mset_order_by_desc sorted_order_by_desc)
  qed
qed

text \<open>Two issues, created at 10 and 20, the first then resolved: the four kinds of
  request.\<close>

theorem list_filters_by_status_newest_first_witness:
  "get_issues example_externals
        (fst (patch_issues example_externals
           (fst (post_issues example_externals
              (fst (post_issues example_externals empty_db 10
                 [''issue_type'' \<mapsto> JStr ''typo'', ''description'' \<mapsto> JStr ''d'']))
              20 [''issue_type'' \<mapsto> JStr ''typo'', ''description'' \<mapsto> JStr ''e'']))
           30 ''1'' [''status'' \<mapsto> JStr ''resolved'']))
        (Some (JStr ''closed'')) = Inr (200, [])
   \<and> map_sum id (\<lambda>reply. map issue_id (snd reply)) (get_issues example_externals
        (fst (patch_issues example_externals
           (fst (post_issues example_externals
              (fst (post_issues example_externals empty_db 10
                 [''issue_type'' \<mapsto> JStr ''typo'', ''description'' \<mapsto> JStr ''d'']))
              20 [''issue_type'' \<mapsto> JStr ''typo'', ''description'' \<mapsto> JStr ''e'']))
           30 ''1'' [''status'' \<mapsto> JStr ''resolved'']))
        (Some (JStr ''all''))) = Inr [2, 1]
   \<and> map_sum id (\<lambda>reply. map issue_id (snd reply)) (get_issues example_externals
        (fst (patch_issues example_externals
           (fst (post_issues example_externals
              (fst (post_issues example_externals empty_db 10
                 [''issue_type'' \<mapsto> JStr ''typo'', ''description'' \<mapsto> JStr ''d'']))
              20 [''issue_type'' \<mapsto> JStr ''typo'', ''description'' \<mapsto> JStr ''e'']))
           30 ''1'' [''status'' \<mapsto> JStr ''resolved'']))
        None) = Inr [2]
   \<and> map_sum id (\<lambda>reply. map issue_id (snd reply)) (get_issues example_externals
        (fst (patch_issues example_externals
           (fst (post_issues example_externals
              (fst (post_issues example_externals empty_db 10
                 [''issue_type'' \<mapsto> JStr ''typo'', ''description'' \<mapsto> JStr ''d'']))
              20 [''issue_type'' \<mapsto> JStr ''typo'', ''description'' \<mapsto> JStr ''e'']))
           30 ''1'' [''status'' \<mapsto> JStr ''resolved'']))
        (Some (JStr ''resolved''))) = Inr [1]"
proof -
  have nn: "\<forall>t. prepareValue example_externals (Some (JStr ''closed'')) = Some t
              \<longrightarrow> CHR 0x00 \<notin> set t"
    by simp
  show ?thesis
    using list_filters_by_status_newest_first [OF nn, of
        "fst (patch_issues example_externals
           (fst (post_issues example_externals
              (fst (post_issues example_externals empty_db 10
                 [''issue_type'' \<mapsto> JStr ''typo'', ''description'' \<mapsto> JStr ''d'']))
              20 [''issue_type'' \<mapsto> JStr ''typo'', ''description'' \<mapsto> JStr ''e'']))
           30 ''1'' [''status'' \<mapsto> JStr ''resolved''])"]
    by (simp add: handler_eval)
qed

text \<open>The request \<open>?status=\<close> carries the empty string: \<open>'' || 'open'\<close> is
  \<open>open\<close>, so the open issue is listed, although no row has the empty status. The
  request \<open>?status=%00\<close> carries the character NUL: the store rejects the parameter
  and the handler writes no response.\<close>

theorem empty_status_parameter_lists_open_rows:
  "get_issues example_externals
       (fst (post_issues example_externals empty_db 10
          [''issue_type'' \<mapsto> JStr ''typo'', ''description'' \<mapsto> JStr ''d'']))
       (Some (JStr []))
     = Inr (200, [\<lparr>issue_id = 1, issue_doc_slug = None, issue_doc_title = None,
            issue_issue_type = ''typo'', issue_description = ''d'', issue_suggested_fix = None,
            issue_status = Some ''open'', issue_resolution_notes = None,
            issue_created_at = Some 10, issue_resolved_at = None\<rparr>])
   \<and> filter (\<lambda>r. issue_status r = Some [])
       (docs_issues (fst (post_issues example_externals empty_db 10
          [''issue_type'' \<mapsto> JStr ''typo'', ''description'' \<mapsto> JStr ''d'']))) = []
   \<and> get_issues example_externals empty_db (Some (JStr [CHR 0x00])) = Inl InvalidByteSequence
   \<and> get_gaps example_externals empty_db (Some (JStr [CHR 0x00])) = Inl InvalidByteSequence"
  by (simp add: handler_eval)

section \<open>Properties of the stats\<close>









section \<open>Properties of the start-up\<close>

text \<open>
  Claim C9. \<open>app.listen\<close> is called exactly when the store accepted all three
  \<open>CREATE TABLE\<close> statements, and then after all three, last of all. When one of
  them is rejected the run ends with that statement: nothing is sent after it and the
  server never listens.
\<close>

theorem listen_only_after_three_tables:
  "(Listen \<in> set (startup accepts) \<longleftrightarrow>
      accepts CreateReviews \<and> accepts CreateIssues \<and> accepts CreateGaps)
   \<and> (Listen \<in> set (startup accepts) \<longrightarrow>
        takeWhile (\<lambda>e. e \<noteq> Listen) (startup accepts) =
          [Query CreateReviews, Query CreateIssues, Query CreateGaps,
           Log ''Database tables ready''])
   \<and> (\<not> accepts CreateReviews \<longrightarrow> startup accepts = [Query CreateReviews])
   \<and> (accepts CreateReviews \<and> \<not> accepts CreateIssues \<longrightarrow>
        startup accepts = [Query CreateReviews, Query CreateIssues])
   \<and> (accepts CreateReviews \<and> accepts CreateIssues \<and> \<not> accepts CreateGaps \<longrightarrow>
        startup accepts = [Query CreateReviews, Query CreateIssues, Query CreateGaps])"
  by (cases "accepts CreateReviews"; cases "accepts CreateIssues"; cases "accepts CreateGaps")
    (simp_all add: startup_def setupDb_def)

text \<open>A store that accepts every statement, and one that rejects the second.\<close>

theorem listen_only_after_three_tables_witness:
  "startup (\<lambda>s. True) =
     [Query CreateReviews, Query CreateIssues, Query CreateGaps,
      Log ''Database tables ready'', Listen]
   \<and> startup (\<lambda>s. s \<noteq> CreateIssues) = [Query CreateReviews, Query CreateIssues]
   \<and> Listen \<notin> set (startup (\<lambda>s. s \<noteq> CreateIssues))"
  using listen_only_after_three_tables [of "\<lambda>s. True"]
    listen_only_after_three_tables [of "\<lambda>s. s \<noteq> CreateIssues"]
  by (simp add: startup_def setupDb_def)

end
